theory Spec2Isabelle
  imports Main "HOL-Library.Word"
begin

section \<open>JavaScript strings and values\<close>

text \<open>
  A JavaScript string is a sequence of UTF-16 code units. ASCII text is written with
  \<open>js\<close>; other code units are spliced in as numerals.
\<close>

type_synonym jsstring = "16 word list"

definition js :: "string \<Rightarrow> jsstring" where
  "js s = map of_char s"

text \<open>
  \<open>String.prototype.trim\<close> removes the ECMAScript WhiteSpace and LineTerminator code
  units from both ends.
\<close>

definition isWhiteSpace :: "16 word \<Rightarrow> bool" where
  "isWhiteSpace c \<longleftrightarrow>
     c = 0x09 \<or> c = 0x0A \<or> c = 0x0B \<or> c = 0x0C \<or> c = 0x0D \<or> c = 0x20 \<or> c = 0xA0 \<or>
     c = 0x1680 \<or> (0x2000 \<le> c \<and> c \<le> 0x200A) \<or> c = 0x2028 \<or> c = 0x2029 \<or>
     c = 0x202F \<or> c = 0x205F \<or> c = 0x3000 \<or> c = 0xFEFF"

definition trim :: "jsstring \<Rightarrow> jsstring" where
  "trim s = rev (dropWhile isWhiteSpace (rev (dropWhile isWhiteSpace s)))"

text \<open>\<open>s.indexOf(c)\<close> and \<open>s.lastIndexOf(c)\<close> for a one-unit needle; \<open>-1\<close> when absent.\<close>

fun indexOf :: "jsstring \<Rightarrow> 16 word \<Rightarrow> int" where
  "indexOf [] c = -1"
| "indexOf (x # xs) c =
     (if x = c then 0 else (let r = indexOf xs c in if r = -1 then -1 else r + 1))"

definition lastIndexOf :: "jsstring \<Rightarrow> 16 word \<Rightarrow> int" where
  "lastIndexOf s c =
     (let r = indexOf (rev s) c in if r = -1 then -1 else int (length s) - 1 - r)"

text \<open>\<open>s.slice(a, b)\<close>: negative arguments count from the end, both are clamped.\<close>

definition slice :: "jsstring \<Rightarrow> int \<Rightarrow> int \<Rightarrow> jsstring" where
  "slice s a b =
     (let n = int (length s);
          from = (if a < 0 then max (n + a) 0 else min a n);
          to = (if b < 0 then max (n + b) 0 else min b n)
      in take (nat (to - from)) (drop (nat from) s))"

text \<open>
  The values \<open>JSON.parse\<close> can return. A number is kept as the text \<open>String\<close> gives
  for it; \<open>+0\<close> and \<open>-0\<close> both render as \<open>0\<close> and are the only numbers of JSON that
  are falsy. An object is the list of its own properties. \<open>undefined\<close> is \<open>None\<close> of
  \<open>json option\<close>.
\<close>

datatype json =
    JNull
  | JBool bool
  | JNum jsstring
  | JStr jsstring
  | JArr "json list"
  | JObj "(jsstring \<times> json) list"

fun truthy :: "json option \<Rightarrow> bool" where
  "truthy None = False"
| "truthy (Some JNull) = False"
| "truthy (Some (JBool b)) = b"
| "truthy (Some (JNum n)) = (n \<noteq> js ''0'')"
| "truthy (Some (JStr s)) = (s \<noteq> [])"
| "truthy (Some (JArr xs)) = True"
| "truthy (Some (JObj kvs)) = True"

text \<open>Errors the engine itself raises while the route runs.\<close>

datatype engine_error =
    ReadOfNull jsstring
  | ToPrimitive

text \<open>
  \<open>v.k\<close> for a key that no prototype defines (\<open>ads\<close>, \<open>title\<close>, \<open>description\<close>,
  \<open>cta\<close>): reading a property of \<open>null\<close> throws a TypeError, a primitive or an array has
  no such property. \<open>v?.k\<close> yields \<open>undefined\<close> on \<open>null\<close> instead.
\<close>

fun getProp :: "json \<Rightarrow> jsstring \<Rightarrow> engine_error + json option" where
  "getProp JNull k = Inl (ReadOfNull k)"
| "getProp (JObj kvs) k = Inr (map_of kvs k)"
| "getProp v k = Inr None"

fun getPropOpt :: "json \<Rightarrow> jsstring \<Rightarrow> json option" where
  "getPropOpt (JObj kvs) k = map_of kvs k"
| "getPropOpt v k = None"

text \<open>
  \<open>String(v)\<close>. An array is joined with commas, \<open>null\<close> elements rendering empty. An
  object renders through \<open>Object.prototype.toString\<close>; when it has an own \<open>toString\<close>
  property (never callable after \<open>JSON.parse\<close>) the conversion throws a TypeError.
\<close>

fun ToString :: "json \<Rightarrow> engine_error + jsstring"
  and joinElems :: "json list \<Rightarrow> engine_error + jsstring" where
  "ToString JNull = Inr (js ''null'')"
| "ToString (JBool b) = Inr (if b then js ''true'' else js ''false'')"
| "ToString (JNum n) = Inr n"
| "ToString (JStr s) = Inr s"
| "ToString (JArr xs) = joinElems xs"
| "ToString (JObj kvs) =
     (if map_of kvs (js ''toString'') = None then Inr (js ''[object Object]'')
      else Inl ToPrimitive)"
| "joinElems [] = Inr []"
| "joinElems (x # xs) =
     (case (if x = JNull then Inr [] else ToString x) of
        Inl e \<Rightarrow> Inl e
      | Inr s \<Rightarrow>
          (if xs = [] then Inr s
           else (case joinElems xs of Inl e \<Rightarrow> Inl e | Inr r \<Rightarrow> Inr (s @ js '','' @ r))))"

text \<open>Optional strings: \<open>!s\<close> and \<open>s || d\<close>.\<close>

fun truthyStr :: "jsstring option \<Rightarrow> bool" where
  "truthyStr None = False"
| "truthyStr (Some s) = (s \<noteq> [])"

definition strOr :: "jsstring option \<Rightarrow> jsstring \<Rightarrow> jsstring" where
  "strOr s d = (if truthyStr s then the s else d)"

text \<open>
  A thrown value: an engine error, another \<open>Error\<close> instance with its message, or a
  value that is no \<open>Error\<close> (with its \<open>message\<close> property when it has one).
\<close>

datatype thrown =
    Engine engine_error
  | ErrorObj jsstring
  | Other "jsstring option"

section \<open>The generation route\<close>

record AdItem =
  title :: jsstring
  description :: jsstring
  cta :: jsstring

record GenerateBody =
  url :: "jsstring option"
  customPrompt :: "jsstring option"
  language :: "jsstring option"
  variantOf :: "AdItem option"

text \<open>\<open>x || ""\<close> for an optional string.\<close>

definition orEmpty :: "jsstring option \<Rightarrow> jsstring" where
  "orEmpty s = strOr s []"

text \<open>The template \<open>sharedGuidelines\<close> of \<open>buildPrompt\<close>, as the source file holds it.\<close>

definition sharedGuidelines ::
  "jsstring \<Rightarrow> jsstring option \<Rightarrow> jsstring option \<Rightarrow> jsstring \<Rightarrow> jsstring" where
  "sharedGuidelines productUrl title' metaDescription lang = concat [
   js ''\<newline>'',
   js ''Context:\<newline>'',
   js ''- Product URL: '',
   productUrl,
   js ''\<newline>'',
   js ''- Page title (h1): '',
   orEmpty title',
   js ''\<newline>'',
   js ''- Meta description: '',
   orEmpty metaDescription,
   js ''\<newline>'',
   js ''\<newline>'',
   js ''Style guidelines (match these exactly):\<newline>'',
   js ''- Catchy title with an emoji at the start (e.g., '',
   [0xE2, 0x153, 0xA8],
   js '', '',
   [0xE2, 0x2DC, 0x20AC, 0xEF, 0xB8],
   js '', '',
   [0x11F, 0x178, 0x152, 0xA7, 0xEF, 0xB8],
   js '', '',
   [0xE2, 0x161, 0xA1],
   js '')\<newline>'',
   js ''- Description must be short, scannable bullet-like lines with emojis\<newline>'',
   js ''- 3'',
   [0xE2, 0x20AC, 0x201C],
   js ''5 lines in the description, no URLs and no CTA inside description\<newline>'',
   js ''\<newline>'',
   js ''Rules:\<newline>'',
   js ''- title: max 9 words, start with an emoji\<newline>'',
   js ''- description: 3'',
   [0xE2, 0x20AC, 0x201C],
   js ''6 kratkih vrstic, vsaka vrstica naj se za'',
   [0xC4],
   js ''ne z emoji ali kratko frazo\<newline>'',
   js ''- cta: 1'',
   [0xE2, 0x20AC, 0x201C],
   js ''5 besed; pick a CTA that BEST fits the page intent (infer from URL, h1, meta). It may include a leading emoji and/or a trailing down arrow (\"'',
   [0x11F, 0x178, 0x2018, 0x2021],
   js ''\").\<newline>'',
   js ''- '',
   [0xC4],
   js ''e gre za e'',
   [0xE2, 0x20AC, 0x2018],
   js ''commerce produkt/ko'',
   [0xC5, 0xA1],
   js ''arico/checkout: uporabi \"Kupi\" ali \"Naro'',
   [0xC4],
   js ''i zdaj\"\<newline>'',
   js ''- '',
   [0xC4],
   js ''e gre za informativno/landing stran ali blog: uporabi \"Izvedi ve'',
   [0xC4],
   js ''\"\<newline>'',
   js ''- '',
   [0xC4],
   js ''e gre za prijavo/registracijo: uporabi \"Prijavi se\"\<newline>'',
   js ''- '',
   [0xC4],
   js ''e gre za kontakt/storitve/ponudbo: uporabi \"Kontaktiraj nas\" ali \"Zahtevaj ponudbo\"\<newline>'',
   js ''IMPORTANT: All text (title, description, CTA) MUST be written in '',
   lang,
   js ''. Do not use any other language. Avoid untranslated words.\<newline>'',
   js ''Vsak od treh oglasov naj ima CTA, ki je lahko razli'',
   [0xC4],
   js ''en, vendar vedno skladen z namenom strani.\<newline>'',
   js ''\<newline>'',
   js ''Return a JSON object with key \"ads\" whose value is an array of 3 items. Each item must include keys: title, description, cta. Example:\<newline>'',
   js ''{\"ads\":[\<newline>'',
   js ''  {\"title\":\"...\",\"description\":\"...\",\"cta\":\"<primeren CTA glede na namen>\"},\<newline>'',
   js ''  {\"title\":\"...\",\"description\":\"...\",\"cta\":\"<primeren CTA glede na namen>\"},\<newline>'',
   js ''  {\"title\":\"...\",\"description\":\"...\",\"cta\":\"<primeren CTA glede na namen>\"}\<newline>'',
   js '']}'']"

text \<open>The three templates \<open>buildPrompt\<close> returns, one per branch.\<close>

definition variationPrompt :: "AdItem \<Rightarrow> jsstring \<Rightarrow> jsstring" where
  "variationPrompt v lang =
    (let base = concat [
       title v,
       js ''\<newline>'',
       js ''\<newline>'',
       description v,
       js ''\<newline>'',
       js ''\<newline>'',
       js ''CTA: '',
       cta v]
     in concat [
       js ''You are a performance Facebook ads copywriter.\<newline>'',
       js ''Generate EXACTLY 3 similar VARIATIONS to the given base ad, keeping the same CTA. Language: '',
       lang,
       js ''.\<newline>'',
       js ''\<newline>'',
       js ''Base ad:\<newline>'',
       base,
       js ''\<newline>'',
       js ''\<newline>'',
       js ''Guidelines:\<newline>'',
       js ''- Keep the core benefits and style (emoji title + bullet-like short lines)\<newline>'',
       js ''- Avoid repeating the exact same phrases; rephrase creatively\<newline>'',
       js ''- Keep CTA identical to the base ad'',
       [0x27],
       js ''s CTA\<newline>'',
       js ''- Respect the previous style rules (max title length, 3'',
       [0xE2, 0x20AC, 0x201C],
       js ''6 short lines, no URLs)\<newline>'',
       js ''\<newline>'',
       js ''Return a JSON object with key \"ads\" whose value is an array of items with keys: title, description, cta. Example:\<newline>'',
       js ''{\"ads\":[{\"title\":\"...\",\"description\":\"...\",\"cta\":\"'',
       cta v,
       js ''\"}]]}''])"

definition customInstruction :: "jsstring \<Rightarrow> jsstring" where
  "customInstruction lang = concat [
     js ''\<newline>'',
     js ''\<newline>'',
     js ''Generate EXACTLY 3 distinct Facebook ad variations in '',
     lang,
     js ''. Output strictly JSON.\<newline>'']"

definition genericInstruction :: "jsstring \<Rightarrow> jsstring" where
  "genericInstruction lang = concat [
     js ''You are a performance Facebook ads copywriter.\<newline>'',
     js ''Generate EXACTLY 3 distinct Facebook ad variations.\<newline>'',
     js '' Language: '',
     lang,
     js ''. Be persuasive, concise, and compliant. Output JSON only.\<newline>'',
     js ''\<newline>'']"

text \<open>The default of the parameter \<open>language: string = "Slovenian"\<close>.\<close>

definition languageOrDefault :: "jsstring option \<Rightarrow> jsstring" where
  "languageOrDefault language' = (case language' of None \<Rightarrow> js ''Slovenian'' | Some l \<Rightarrow> l)"

text \<open>
  \<open>buildPrompt\<close>. The parameter \<open>language\<close> defaults to \<open>Slovenian\<close> when it is
  \<open>undefined\<close>; \<open>variantOf\<close> is tested first, then \<open>customPrompt\<close>.
\<close>

definition buildPrompt ::
  "jsstring \<Rightarrow> jsstring option \<Rightarrow> jsstring option \<Rightarrow> jsstring option \<Rightarrow> AdItem option \<Rightarrow>
   jsstring option \<Rightarrow> jsstring" where
  "buildPrompt productUrl title' metaDescription customPrompt' variantOf' language' =
    (let lang = languageOrDefault language';
         guidelines = sharedGuidelines productUrl title' metaDescription lang
     in case variantOf' of
          Some v \<Rightarrow> variationPrompt v lang
        | None \<Rightarrow>
            (case customPrompt' of
               Some c \<Rightarrow>
                 if length (trim c) > 0 then c @ customInstruction lang @ guidelines
                 else genericInstruction lang @ guidelines
             | None \<Rightarrow> genericInstruction lang @ guidelines))"

text \<open>
  The request sent to the chat-completion API: the model, the two messages and the
  item bounds of the \<open>json_schema\<close> response format (the temperature is always 0.2).
\<close>

record chat_request =
  model :: jsstring
  system_content :: jsstring
  user_content :: jsstring
  schema_name :: jsstring
  minItems :: "nat option"
  maxItems :: "nat option"

text \<open>
  What lies outside the routes: the platform's \<open>JSON.parse\<close> (\<open>None\<close> for a
  SyntaxError) and \<open>JSON.stringify(v, null, 2)\<close>, the text of the engine's error
  messages, the environment variable, the HTTP client (\<open>axios.get\<close> returns the page or
  throws), the two cheerio queries of \<open>scrapePage\<close>, and the completion API (returning
  \<open>choices?.[0]?.message?.content\<close>, or throwing).
\<close>

record world =
  JSON_parse :: "jsstring \<Rightarrow> json option"
  JSON_stringify :: "json \<Rightarrow> jsstring"
  engine_message :: "engine_error \<Rightarrow> jsstring"
  OPENAI_API_KEY :: "jsstring option"
  axios_get :: "jsstring \<Rightarrow> thrown + jsstring"
  h1_first_text :: "jsstring \<Rightarrow> jsstring"
  attr_content :: "jsstring \<Rightarrow> jsstring \<Rightarrow> jsstring option"
  chat_create :: "chat_request \<Rightarrow> thrown + jsstring option"

text \<open>The outbound calls a request issues, in order.\<close>

datatype outbound =
    ScrapeFetch jsstring
  | CompletionCall chat_request

record ScrapeResult =
  h1 :: "jsstring option"
  meta :: "jsstring option"

text \<open>\<open>s?.trim() || undefined\<close>.\<close>

definition trimmedOrUndefined :: "jsstring option \<Rightarrow> jsstring option" where
  "trimmedOrUndefined s =
     (case s of None \<Rightarrow> None | Some t \<Rightarrow> if trim t = [] then None else Some (trim t))"

definition scrapePage :: "world \<Rightarrow> jsstring \<Rightarrow> thrown + ScrapeResult" where
  "scrapePage W u =
     (case axios_get W u of
        Inl e \<Rightarrow> Inl e
      | Inr html \<Rightarrow>
          Inr \<lparr> h1 = trimmedOrUndefined (Some (h1_first_text W html)),
                meta =
                  (case trimmedOrUndefined (attr_content W html (js ''meta[name=\"description\"]'')) of
                     Some m \<Rightarrow> Some m
                   | None \<Rightarrow>
                       trimmedOrUndefined
                         (attr_content W html (js ''meta[property=\"og:description\"]''))) \<rparr>)"

text \<open>The bodies the route answers with, and the response.\<close>

record Source =
  source_url :: "jsstring option"
  source_h1 :: "jsstring option"
  source_meta :: "jsstring option"
  variant :: bool

datatype gen_body =
    ErrorBody (error: jsstring) (raw: "jsstring option") (items: "AdItem list option")
  | AdsBody (source: Source) (ads: "AdItem list")

datatype 'b response = Response (status: nat) (body: 'b)

text \<open>The outer \<open>catch\<close>: \<open>error?.message || "Neznana napaka"\<close>, status 500.\<close>

definition thrownMessage :: "world \<Rightarrow> thrown \<Rightarrow> jsstring option" where
  "thrownMessage W e =
     (case e of Engine k \<Rightarrow> Some (engine_message W k) | ErrorObj m \<Rightarrow> Some m | Other m \<Rightarrow> m)"

definition catchGenerate :: "world \<Rightarrow> thrown \<Rightarrow> gen_body response" where
  "catchGenerate W e =
     Response 500 (ErrorBody (strOr (thrownMessage W e) (js ''Neznana napaka'')) None None)"

text \<open>
  The \<open>try\<close> block of the parse: \<open>JSON.parse(content)\<close>, an array taken as it is, else
  the \<open>ads\<close> array of a truthy value; \<open>None\<close> when the block throws (a SyntaxError or
  ``Unexpected JSON shape'').
\<close>

definition strictParse :: "world \<Rightarrow> jsstring \<Rightarrow> json list option" where
  "strictParse W content =
     (case JSON_parse W content of
        None \<Rightarrow> None
      | Some (JArr xs) \<Rightarrow> Some xs
      | Some json \<Rightarrow>
          (if truthy (Some json) then
             (case getProp json (js ''ads'') of
                Inr (Some (JArr xs)) \<Rightarrow> Some xs
              | _ \<Rightarrow> None)
           else None))"

text \<open>
  The fallback inside the \<open>catch\<close>: the text from the first \<open>[\<close> to the last \<open>]\<close>,
  parsed; \<open>parsed\<close> stays empty when there is no such text, when it does not parse, or
  when it is no array.
\<close>

definition fallbackParse :: "world \<Rightarrow> jsstring \<Rightarrow> json list" where
  "fallbackParse W content =
     (let start = indexOf content 0x5B;
          end' = lastIndexOf content 0x5D
      in if start \<noteq> -1 \<and> end' \<noteq> -1 \<and> end' > start then
           (case JSON_parse W (slice content start (end' + 1)) of
              Some (JArr arr) \<Rightarrow> arr
            | _ \<Rightarrow> [])
         else [])"

text \<open>\<open>String(v || "").trim()\<close> and the three fields of one item, in order.\<close>

definition normalizeField :: "json option \<Rightarrow> engine_error + jsstring" where
  "normalizeField v =
     (case ToString (if truthy v then the v else JStr []) of
        Inl e \<Rightarrow> Inl e
      | Inr s \<Rightarrow> Inr (trim s))"

definition readField :: "json \<Rightarrow> jsstring \<Rightarrow> engine_error + jsstring" where
  "readField item k =
     (case getProp item k of Inl e \<Rightarrow> Inl e | Inr v \<Rightarrow> normalizeField v)"

definition normalizeItem :: "json \<Rightarrow> engine_error + AdItem" where
  "normalizeItem item =
     (case readField item (js ''title'') of
        Inl e \<Rightarrow> Inl e
      | Inr t \<Rightarrow>
          (case readField item (js ''description'') of
             Inl e \<Rightarrow> Inl e
           | Inr d \<Rightarrow>
               (case readField item (js ''cta'') of
                  Inl e \<Rightarrow> Inl e
                | Inr c \<Rightarrow> Inr \<lparr> title = t, description = d, cta = c \<rparr>)))"

text \<open>\<open>xs.map(f)\<close> for an \<open>f\<close> that may throw: the first error ends the loop.\<close>

fun mapE :: "('a \<Rightarrow> 'e + 'b) \<Rightarrow> 'a list \<Rightarrow> 'e + 'b list" where
  "mapE f [] = Inr []"
| "mapE f (x # xs) =
     (case f x of
        Inl e \<Rightarrow> Inl e
      | Inr y \<Rightarrow> (case mapE f xs of Inl e \<Rightarrow> Inl e | Inr ys \<Rightarrow> Inr (y # ys)))"

definition valid :: "AdItem \<Rightarrow> bool" where
  "valid a \<longleftrightarrow> title a \<noteq> [] \<and> description a \<noteq> [] \<and> cta a \<noteq> []"

definition normalize :: "json list \<Rightarrow> engine_error + AdItem list" where
  "normalize parsed =
     (case mapE normalizeItem (take 3 parsed) of
        Inl e \<Rightarrow> Inl e
      | Inr xs \<Rightarrow> Inr (filter valid xs))"

text \<open>From the parsed list to the response: normalise, then demand three items.\<close>

definition respond :: "world \<Rightarrow> GenerateBody \<Rightarrow> ScrapeResult \<Rightarrow> json list \<Rightarrow> gen_body response" where
  "respond W b sc parsed =
     (case normalize parsed of
        Inl e \<Rightarrow> catchGenerate W (Engine e)
      | Inr normalized \<Rightarrow>
          if length normalized < 3 then
            Response 502 (ErrorBody (js ''Prejetih je premalo oglasov.'') None (Some normalized))
          else
            Response 200
              (AdsBody \<lparr> source_url = url b, source_h1 = h1 sc, source_meta = meta sc,
                         variant = (variantOf b \<noteq> None) \<rparr> normalized))"

text \<open>
  The whole parse, \<open>try\<close> and \<open>catch\<close>: the list \<open>parsed\<close> the code goes on with,
  or \<open>None\<close> when the \<open>catch\<close> block returns the 502 that carries \<open>raw\<close>. The test
  \<open>!parsed.length\<close> is inside the \<open>catch\<close> block.
\<close>

definition parseContent :: "world \<Rightarrow> jsstring \<Rightarrow> json list option" where
  "parseContent W content =
     (case strictParse W content of
        Some parsed \<Rightarrow> Some parsed
      | None \<Rightarrow>
          (let parsed = fallbackParse W content
           in if parsed = [] then None else Some parsed))"

text \<open>From the completion's content to the response.\<close>

definition handleContent ::
  "world \<Rightarrow> GenerateBody \<Rightarrow> ScrapeResult \<Rightarrow> jsstring \<Rightarrow> gen_body response" where
  "handleContent W b sc content =
     (case parseContent W content of
        None \<Rightarrow>
          Response 502 (ErrorBody (js ''Neveljaven JSON iz OpenAI.'') (Some content) None)
      | Some parsed \<Rightarrow> respond W b sc parsed)"

text \<open>\<open>completion.choices?.[0]?.message?.content?.trim() || ""\<close>.\<close>

definition contentOf :: "jsstring option \<Rightarrow> jsstring" where
  "contentOf c = (case c of None \<Rightarrow> [] | Some t \<Rightarrow> trim t)"

definition generateRequest :: "GenerateBody \<Rightarrow> ScrapeResult \<Rightarrow> chat_request" where
  "generateRequest b sc =
     \<lparr> model = js ''gpt-4o-mini'',
       system_content = concat [
         js ''You output strictly the requested JSON and nothing else. Respond ONLY in '',
         strOr (language b) (js ''Slovenian''),
         js ''. Do not use any other language.''],
       user_content =
         buildPrompt (orEmpty (url b)) (h1 sc) (meta sc) (customPrompt b) (variantOf b)
           (Some (strOr (language b) (js ''Slovenian''))),
       schema_name = js ''ad_list'',
       minItems = Some 3,
       maxItems = Some 3 \<rparr>"

text \<open>Lines 92 to 98: the page is scraped only when \<open>url\<close> is truthy.\<close>

definition scrapeStep :: "world \<Rightarrow> GenerateBody \<Rightarrow> thrown + ScrapeResult" where
  "scrapeStep W b =
     (if truthyStr (url b) then scrapePage W (the (url b))
      else Inr \<lparr> h1 = None, meta = None \<rparr>)"

text \<open>
  The route \<open>POST\<close> of generation (\<open>/api/generate-ads\<close>). The request is the result of \<open>req.json()\<close>; the
  result is the response and the outbound calls issued on the way.
\<close>

definition POST_generate ::
  "world \<Rightarrow> thrown + GenerateBody \<Rightarrow> gen_body response \<times> outbound list" where
  "POST_generate W req =
     (case req of
        Inl e \<Rightarrow> (catchGenerate W e, [])
      | Inr b \<Rightarrow>
          if \<not> truthyStr (url b) \<and> variantOf b = None then
            (Response 400
               (ErrorBody (js ''Zahteva mora vsebovati '' @ [0x27] @ js ''url'' @ [0x27] @
                           js '' ali '' @ [0x27] @ js ''variantOf'' @ [0x27] @ js ''.'')
                  None None), [])
          else
            (let calls = (if truthyStr (url b) then [ScrapeFetch (the (url b))] else [])
             in case scrapeStep W b of
                  Inl e \<Rightarrow> (catchGenerate W e, calls)
                | Inr sc \<Rightarrow>
                    if \<not> truthyStr (OPENAI_API_KEY W) then
                      (Response 500
                         (ErrorBody (js ''Manjka okoljska spremenljivka OPENAI_API_KEY.'')
                            None None), calls)
                    else
                      (case chat_create W (generateRequest b sc) of
                         Inl e \<Rightarrow>
                           (catchGenerate W e, calls @ [CompletionCall (generateRequest b sc)])
                       | Inr c \<Rightarrow>
                           (handleContent W b sc (contentOf c),
                            calls @ [CompletionCall (generateRequest b sc)]))))"

section \<open>The translation route\<close>

text \<open>
  The body of a translation request: \<open>ads\<close> is whatever JSON value the client sent
  (\<open>None\<close> when the key is absent), \<open>targetLanguage\<close> a string or absent.
\<close>

record TranslateBody =
  request_ads :: "json option"
  targetLanguage :: "jsstring option"

datatype tr_body =
    TrErrorBody (tr_error: jsstring) (tr_raw: "jsstring option")
  | TrAdsBody (tr_ads: "json list")

fun isArray :: "json option \<Rightarrow> bool" where
  "isArray (Some (JArr xs)) = True"
| "isArray v = False"

text \<open>The \<open>catch\<close> of this route: \<open>error instanceof Error ? error.message : "Neznana napaka"\<close>.\<close>

definition catchTranslate :: "world \<Rightarrow> thrown \<Rightarrow> tr_body response" where
  "catchTranslate W e =
     Response 500
       (TrErrorBody
          (case e of
             Engine k \<Rightarrow> engine_message W k
           | ErrorObj m \<Rightarrow> m
           | Other m \<Rightarrow> js ''Neznana napaka'')
          None)"

definition translateRequest :: "world \<Rightarrow> TranslateBody \<Rightarrow> chat_request" where
  "translateRequest W b =
     \<lparr> model = js ''gpt-4o-mini'',
       system_content = js ''You output strictly the requested JSON and nothing else.'',
       user_content = concat [
         js ''Translate each ad to '',
         the (targetLanguage b),
         js ''. Keep the persuasive style and emojis. Keep CTA short and natural for '',
         the (targetLanguage b),
         js ''. Return JSON with key \"ads\" as an array of {title, description, cta}.\<newline>'',
         js ''\<newline>'',
         js ''Ads to translate:\<newline>'',
         JSON_stringify W (the (request_ads b))],
       schema_name = js ''ad_list_translation'',
       minItems = None,
       maxItems = None \<rparr>"

text \<open>
  The parse of this route: \<open>JSON.parse(content)\<close>, and the \<open>ads\<close> array of the value
  when it has one; \<open>result\<close> stays empty otherwise.
\<close>

definition translateResult :: "world \<Rightarrow> jsstring \<Rightarrow> json list" where
  "translateResult W content =
     (case JSON_parse W content of
        None \<Rightarrow> []
      | Some parsed \<Rightarrow>
          (case getPropOpt parsed (js ''ads'') of
             Some (JArr xs) \<Rightarrow> xs
           | _ \<Rightarrow> []))"

definition handleTranslation :: "world \<Rightarrow> jsstring \<Rightarrow> tr_body response" where
  "handleTranslation W content =
     (let result = translateResult W content
      in if result = [] then
           Response 502 (TrErrorBody (js ''Neveljaven JSON iz OpenAI.'') (Some content))
         else Response 200 (TrAdsBody result))"

definition POST_translate ::
  "world \<Rightarrow> thrown + TranslateBody \<Rightarrow> tr_body response \<times> outbound list" where
  "POST_translate W req =
     (case req of
        Inl e \<Rightarrow> (catchTranslate W e, [])
      | Inr b \<Rightarrow>
          if \<not> isArray (request_ads b) \<or> \<not> truthyStr (targetLanguage b) then
            (Response 400 (TrErrorBody (js ''Manjkajo podatki: ads ali targetLanguage.'') None),
             [])
          else if \<not> truthyStr (OPENAI_API_KEY W) then
            (Response 500
               (TrErrorBody (js ''Manjka okoljska spremenljivka OPENAI_API_KEY.'') None), [])
          else
            (case chat_create W (translateRequest W b) of
               Inl e \<Rightarrow> (catchTranslate W e, [CompletionCall (translateRequest W b)])
             | Inr c \<Rightarrow>
                 (handleTranslation W (contentOf c),
                  [CompletionCall (translateRequest W b)])))"

section \<open>Requests that reach the completion API\<close>

text \<open>
  A generation request passes the validation, scrapes its page (when it has a
  \<open>url\<close>) without an exception, finds the API key, and the completion call returns
  the content \<open>c\<close>.
\<close>

definition generateUpstream ::
  "world \<Rightarrow> GenerateBody \<Rightarrow> ScrapeResult \<Rightarrow> jsstring option \<Rightarrow> bool" where
  "generateUpstream W b sc c \<longleftrightarrow>
     (truthyStr (url b) \<or> variantOf b \<noteq> None) \<and>
     scrapeStep W b = Inr sc \<and>
     truthyStr (OPENAI_API_KEY W) \<and>
     chat_create W (generateRequest b sc) = Inr c"

definition translateUpstream :: "world \<Rightarrow> TranslateBody \<Rightarrow> jsstring option \<Rightarrow> bool" where
  "translateUpstream W b c \<longleftrightarrow>
     isArray (request_ads b) \<and>
     truthyStr (targetLanguage b) \<and>
     truthyStr (OPENAI_API_KEY W) \<and>
     chat_create W (translateRequest W b) = Inr c"

section \<open>The parse of the generation route, in the words of its description\<close>

text \<open>
  Three strategies, tried in order, the first success winning: the text parses to an
  array; the text parses to an object whose \<open>ads\<close> property is an array; the text from
  the first \<open>[\<close> to the last \<open>]\<close> parses to an array with at least one item.
\<close>

definition tierArray :: "world \<Rightarrow> jsstring \<Rightarrow> json list option" where
  "tierArray W text = (case JSON_parse W text of Some (JArr xs) \<Rightarrow> Some xs | _ \<Rightarrow> None)"

definition tierAdsProperty :: "world \<Rightarrow> jsstring \<Rightarrow> json list option" where
  "tierAdsProperty W text =
     (case JSON_parse W text of
        Some (JObj kvs) \<Rightarrow> (case map_of kvs (js ''ads'') of Some (JArr xs) \<Rightarrow> Some xs | _ \<Rightarrow> None)
      | _ \<Rightarrow> None)"

definition bracketed :: "jsstring \<Rightarrow> jsstring" where
  "bracketed text =
     rev (dropWhile (\<lambda>c. c \<noteq> 0x5D) (rev (dropWhile (\<lambda>c. c \<noteq> 0x5B) text)))"

definition tierBracketed :: "world \<Rightarrow> jsstring \<Rightarrow> json list option" where
  "tierBracketed W text =
     (if bracketed text = [] then None
      else (case JSON_parse W (bracketed text) of
              Some (JArr xs) \<Rightarrow> if xs = [] then None else Some xs
            | _ \<Rightarrow> None))"

fun firstSuccess :: "('a \<Rightarrow> 'b option) list \<Rightarrow> 'a \<Rightarrow> 'b option" where
  "firstSuccess [] x = None"
| "firstSuccess (f # fs) x = (case f x of Some y \<Rightarrow> Some y | None \<Rightarrow> firstSuccess fs x)"

definition tieredParse :: "world \<Rightarrow> jsstring \<Rightarrow> json list option" where
  "tieredParse W = firstSuccess [tierArray W, tierAdsProperty W, tierBracketed W]"

text \<open>The same with the rule that a success with zero items counts as a failure.\<close>

definition tieredParseNonEmpty :: "world \<Rightarrow> jsstring \<Rightarrow> json list option" where
  "tieredParseNonEmpty W text =
     (case tieredParse W text of Some xs \<Rightarrow> if xs = [] then None else Some xs | None \<Rightarrow> None)"

section \<open>Example inputs\<close>

definition adObject :: "jsstring \<Rightarrow> jsstring \<Rightarrow> jsstring \<Rightarrow> json" where
  "adObject t d c =
     JObj [(js ''title'', JStr t), (js ''description'', JStr d), (js ''cta'', JStr c)]"

definition threeAds :: "json list" where
  "threeAds = [adObject (js ''A'') (js ''B'') (js ''C''), adObject (js ''D'') (js ''E'') (js ''F''),
               adObject (js ''G'') (js ''H'') (js ''I'')]"

definition twoOfThreeAds :: "json list" where
  "twoOfThreeAds = [adObject (js ''A'') (js ''B'') (js ''C''), adObject (js ''D'') (js ''E'') (js ''F''),
                    JObj [(js ''title'', JStr (js ''G'')), (js ''description'', JStr (js ''H''))]]"

definition threeAdsText :: jsstring where
  "threeAdsText = js ''{\"ads\":[{\"title\":\"A\",\"description\":\"B\",\"cta\":\"C\"},{\"title\":\"D\",\"description\":\"E\",\"cta\":\"F\"},{\"title\":\"G\",\"description\":\"H\",\"cta\":\"I\"}]}''"

definition bareThreeAdsText :: jsstring where
  "bareThreeAdsText = js ''[{\"title\":\"A\",\"description\":\"B\",\"cta\":\"C\"},{\"title\":\"D\",\"description\":\"E\",\"cta\":\"F\"},{\"title\":\"G\",\"description\":\"H\",\"cta\":\"I\"}]''"

definition proseText :: jsstring where
  "proseText = js ''Here you go: '' @ bareThreeAdsText @ js '' Enjoy!''"

definition twoOfThreeAdsText :: jsstring where
  "twoOfThreeAdsText = js ''{\"ads\":[{\"title\":\"A\",\"description\":\"B\",\"cta\":\"C\"},{\"title\":\"D\",\"description\":\"E\",\"cta\":\"F\"},{\"title\":\"G\",\"description\":\"H\"}]}''"

definition twoAds :: "json list" where
  "twoAds = [adObject (js ''A'') (js ''B'') (js ''C''), adObject (js ''D'') (js ''E'') (js ''F'')]"

definition twoAdsText :: jsstring where
  "twoAdsText = js ''{\"ads\":[{\"title\":\"A\",\"description\":\"B\",\"cta\":\"C\"},{\"title\":\"D\",\"description\":\"E\",\"cta\":\"F\"}]}''"

definition paddedAdText :: jsstring where
  "paddedAdText = js ''{\"ads\":[{\"title\":\" A \",\"description\":\"\",\"cta\":\"x\"}]}''"

definition truncatedText :: jsstring where
  "truncatedText = js ''{\"ads\":[{\"title\":\"A\"''"

definition emptyArrayText :: jsstring where
  "emptyArrayText = js ''[]''"

text \<open>What \<open>JSON.parse\<close> returns on the example texts; it throws on the others used.\<close>

definition exampleParse :: "jsstring \<Rightarrow> json option" where
  "exampleParse text =
     (if text = threeAdsText then Some (JObj [(js ''ads'', JArr threeAds)])
      else if text = bareThreeAdsText then Some (JArr threeAds)
      else if text = twoOfThreeAdsText then Some (JObj [(js ''ads'', JArr twoOfThreeAds)])
      else if text = twoAdsText then Some (JObj [(js ''ads'', JArr twoAds)])
      else if text = paddedAdText then
        Some (JObj [(js ''ads'', JArr [adObject (js '' A '') [] (js ''x'')])])
      else if text = emptyArrayText then Some (JArr [])
      else None)"

text \<open>\<open>JSON.stringify(v, null, 2)\<close> on the \<open>ads\<close> of the example request.\<close>

definition exampleStringify :: "json \<Rightarrow> jsstring" where
  "exampleStringify v =
     (if v = JArr [adObject (js ''A'') (js ''B'') (js ''C'')] then
        js ''[\<newline>  {\<newline>    \"title\": \"A\",\<newline>    \"description\": \"B\",\<newline>    \"cta\": \"C\"\<newline>  }\<newline>]''
      else js ''[]'')"

definition exampleEngineMessage :: "engine_error \<Rightarrow> jsstring" where
  "exampleEngineMessage k =
     (case k of
        ReadOfNull p \<Rightarrow>
          js ''Cannot read properties of null (reading '' @ [0x27] @ p @ [0x27] @ js '')''
      | ToPrimitive \<Rightarrow> js ''Cannot convert object to primitive value'')"

text \<open>
  A world whose completion API answers every request with the content \<open>c\<close>, and
  whose pages all have the heading ``Shop'' and no description.
\<close>

definition exampleWorld :: "jsstring option \<Rightarrow> world" where
  "exampleWorld c =
     \<lparr> JSON_parse = exampleParse,
       JSON_stringify = exampleStringify,
       engine_message = exampleEngineMessage,
       OPENAI_API_KEY = Some (js ''sk-test''),
       axios_get = (\<lambda>u. Inr (js ''<h1> Shop </h1>'')),
       h1_first_text = (\<lambda>html. js '' Shop ''),
       attr_content = (\<lambda>html selector. None),
       chat_create = (\<lambda>r. Inr c) \<rparr>"

definition urlRequest :: GenerateBody where
  "urlRequest =
     \<lparr> url = Some (js ''https://example.com/p''), customPrompt = None, language = None,
       variantOf = None \<rparr>"

definition emptyRequest :: GenerateBody where
  "emptyRequest = \<lparr> url = None, customPrompt = None, language = None, variantOf = None \<rparr>"

definition baseAd :: AdItem where
  "baseAd = \<lparr> title = js ''A'', description = js ''B'', cta = js ''C'' \<rparr>"

definition translateOne :: TranslateBody where
  "translateOne =
     \<lparr> request_ads = Some (JArr [adObject (js ''A'') (js ''B'') (js ''C'')]),
       targetLanguage = Some (js ''German'') \<rparr>"

section \<open>Strings, normalisation and the shape of the generation route\<close>

lemma trim_idem: "trim (trim s) = trim s"
proof -
  define ys where "ys = dropWhile isWhiteSpace s"
  define zs where "zs = dropWhile isWhiteSpace (rev ys)"
  have r: "trim s = rev zs"
    by (simp add: trim_def ys_def zs_def)
  have trailing: "dropWhile isWhiteSpace zs = zs"
    by (simp add: zs_def)
  have front: "dropWhile isWhiteSpace (rev zs) = rev zs"
  proof (cases "zs = []")
    case True
    then show ?thesis by simp
  next
    case False
    have "rev ys = takeWhile isWhiteSpace (rev ys) @ zs"
      by (simp add: zs_def)
    then have "ys = rev zs @ rev (takeWhile isWhiteSpace (rev ys))"
      by (metis rev_append rev_rev_ident)
    with False have "hd (rev zs) = hd ys" and "ys \<noteq> []"
      by (metis hd_append2 rev_is_Nil_conv, metis append_is_Nil_conv rev_is_Nil_conv)
    moreover have "ys \<noteq> [] \<Longrightarrow> \<not> isWhiteSpace (hd ys)"
      unfolding ys_def by (rule hd_dropWhile)
    ultimately have "\<not> isWhiteSpace (hd (rev zs))"
      by simp
    with False show ?thesis
      by (cases "rev zs") simp_all
  qed
  show ?thesis
    unfolding r by (simp add: trim_def front trailing)
qed

lemma trim_self:
  assumes "s \<noteq> []" and "\<not> isWhiteSpace (hd s)" and "\<not> isWhiteSpace (last s)"
  shows "trim s = s"
proof -
  from assms(1,2) have "dropWhile isWhiteSpace s = s"
    by (cases s) simp_all
  moreover from assms(1,3) have "dropWhile isWhiteSpace (rev s) = rev s"
    by (cases "rev s") (simp_all add: last_rev [symmetric] del: last_rev)
  ultimately show ?thesis
    by (simp add: trim_def)
qed

lemma normalizeField_trimmed: "normalizeField v = Inr s \<Longrightarrow> trim s = s"
  by (auto simp: normalizeField_def trim_idem split: sum.splits)

lemma readField_trimmed: "readField item k = Inr s \<Longrightarrow> trim s = s"
  by (auto simp: readField_def normalizeField_trimmed split: sum.splits)

lemma normalizeItem_trimmed:
  "normalizeItem item = Inr a \<Longrightarrow>
   trim (title a) = title a \<and> trim (description a) = description a \<and> trim (cta a) = cta a"
  by (auto simp: normalizeItem_def readField_trimmed split: sum.splits)

lemma mapE_Inr:
  "mapE f xs = Inr ys \<Longrightarrow> length ys = length xs \<and> (\<forall>y \<in> set ys. \<exists>x \<in> set xs. f x = Inr y)"
  by (induction xs arbitrary: ys) (auto split: sum.splits)

lemma normalize_Inr:
  assumes "normalize parsed = Inr xs"
  shows "length xs \<le> 3"
    and "\<forall>a \<in> set xs. valid a \<and> trim (title a) = title a \<and>
           trim (description a) = description a \<and> trim (cta a) = cta a"
proof -
  from assms obtain ys where ys: "mapE normalizeItem (take 3 parsed) = Inr ys"
    and xs: "xs = filter valid ys"
    by (auto simp: normalize_def split: sum.splits)
  from mapE_Inr [OF ys] have len: "length ys \<le> 3"
    and src: "\<forall>y \<in> set ys. \<exists>x \<in> set (take 3 parsed). normalizeItem x = Inr y"
    by simp_all
  have "length xs \<le> length ys"
    unfolding xs by (rule length_filter_le)
  with len show "length xs \<le> 3" by simp
  show "\<forall>a \<in> set xs. valid a \<and> trim (title a) = title a \<and>
           trim (description a) = description a \<and> trim (cta a) = cta a"
    using src normalizeItem_trimmed unfolding xs by fastforce
qed

lemma status_catchGenerate: "status (catchGenerate W e) = 500"
  by (simp add: catchGenerate_def)

lemma respond_200:
  assumes "status (respond W b sc parsed) = 200"
  shows "\<exists>src xs. body (respond W b sc parsed) = AdsBody src xs \<and> normalize parsed = Inr xs \<and> length xs = 3"
proof (cases "normalize parsed")
  case (Inl e)
  with assms show ?thesis by (simp add: respond_def status_catchGenerate)
next
  case (Inr xs)
  with assms have "\<not> length xs < 3"
    by (auto simp: respond_def split: if_splits)
  moreover from normalize_Inr(1) [OF Inr] have "length xs \<le> 3" .
  ultimately have "length xs = 3" by simp
  with Inr show ?thesis by (simp add: respond_def)
qed

lemma handleContent_200:
  assumes "status (handleContent W b sc content) = 200"
  shows "\<exists>src xs parsed. body (handleContent W b sc content) = AdsBody src xs \<and>
           parseContent W content = Some parsed \<and> normalize parsed = Inr xs \<and> length xs = 3"
proof (cases "parseContent W content")
  case None
  with assms show ?thesis by (simp add: handleContent_def)
next
  case (Some parsed)
  with assms respond_200 [of W b sc parsed] show ?thesis
    by (auto simp: handleContent_def)
qed

lemma POST_generate_200:
  assumes "status (fst (POST_generate W req)) = 200"
  shows "\<exists>b sc c. req = Inr b \<and> generateUpstream W b sc c \<and>
           fst (POST_generate W req) = handleContent W b sc (contentOf c)"
  using assms
  by (auto simp: POST_generate_def generateUpstream_def status_catchGenerate Let_def
           split: sum.splits if_splits)

lemma POST_generate_upstream:
  assumes "generateUpstream W b sc c"
  shows "POST_generate W (Inr b) =
           (handleContent W b sc (contentOf c),
            (if truthyStr (url b) then [ScrapeFetch (the (url b))] else []) @
            [CompletionCall (generateRequest b sc)])"
  using assms
  by (auto simp: POST_generate_def generateUpstream_def Let_def)


lemma generate_calls:
  assumes "CompletionCall r \<in> set (snd (POST_generate W (Inr b)))"
  shows "\<exists>sc. r = generateRequest b sc"
  using assms
  by (auto simp: POST_generate_def Let_def split: if_splits sum.splits)

lemma variationPrompt_names_language: "\<exists>p q. variationPrompt v l = p @ l @ q"
proof -
  have "variationPrompt v l =
      (js ''You are a performance Facebook ads copywriter.\<newline>'' @
       js ''Generate EXACTLY 3 similar VARIATIONS to the given base ad, keeping the same CTA. Language: '') @
      l @ drop (length (js ''You are a performance Facebook ads copywriter.\<newline>'' @
       js ''Generate EXACTLY 3 similar VARIATIONS to the given base ad, keeping the same CTA. Language: '') + length l) (variationPrompt v l)"
    by (simp add: variationPrompt_def Let_def)
  then show ?thesis
    by blast
qed

lemma customInstruction_names_language: "\<exists>p q. customInstruction l = p @ l @ q"
proof -
  have "customInstruction l =
      (js ''\<newline>'' @ js ''\<newline>'' @
       js ''Generate EXACTLY 3 distinct Facebook ad variations in '') @
      l @ js ''. Output strictly JSON.\<newline>''"
    by (simp add: customInstruction_def)
  then show ?thesis
    by blast
qed

lemma genericInstruction_names_language: "\<exists>p q. genericInstruction l = p @ l @ q"
proof -
  have "genericInstruction l =
      (js ''You are a performance Facebook ads copywriter.\<newline>'' @
       js ''Generate EXACTLY 3 distinct Facebook ad variations.\<newline>'' @
       js '' Language: '') @
      l @ (js ''. Be persuasive, concise, and compliant. Output JSON only.\<newline>'' @
           js ''\<newline>'')"
    by (simp add: genericInstruction_def)
  then show ?thesis
    by blast
qed

lemma buildPrompt_names_language:
  "\<exists>p q. buildPrompt u t m c v (Some l) = p @ l @ q"
proof -
  have lang: "languageOrDefault (Some l) = l"
    by (simp add: languageOrDefault_def)
  show ?thesis
  proof (cases v)
    case (Some a)
    with variationPrompt_names_language [of a l] show ?thesis
      by (simp add: buildPrompt_def lang)
  next
    case None
    show ?thesis
    proof (cases "\<exists>x. c = Some x \<and> trim x \<noteq> []")
      case True
      then obtain x where c: "c = Some x" "trim x \<noteq> []"
        by blast
      from customInstruction_names_language [of l] obtain p q
        where "customInstruction l = p @ l @ q"
        by blast
      with None c have "buildPrompt u t m c v (Some l) =
          (x @ p) @ l @ (q @ sharedGuidelines u t m l)"
        by (simp add: buildPrompt_def lang)
      then show ?thesis
        by blast
    next
      case False
      from genericInstruction_names_language [of l] obtain p q
        where "genericInstruction l = p @ l @ q"
        by blast
      with None False have "buildPrompt u t m c v (Some l) =
          p @ l @ (q @ sharedGuidelines u t m l)"
        by (cases c) (auto simp: buildPrompt_def lang)
      then show ?thesis
        by blast
    qed
  qed
qed

section \<open>The example world evaluated\<close>

lemma exampleWorld_simps:
  "JSON_parse (exampleWorld c) = exampleParse"
  "engine_message (exampleWorld c) = exampleEngineMessage"
  "OPENAI_API_KEY (exampleWorld c) = Some (js ''sk-test'')"
  "chat_create (exampleWorld c) r = Inr c"
  by (simp_all add: exampleWorld_def)

lemma scrape_example:
  "scrapePage (exampleWorld c) u = Inr \<lparr> h1 = Some (js ''Shop''), meta = None \<rparr>"
  by (simp add: scrapePage_def exampleWorld_def trimmedOrUndefined_def trim_def js_def
      isWhiteSpace_def)

lemma upstream_urlRequest:
  "generateUpstream (exampleWorld c) urlRequest \<lparr> h1 = Some (js ''Shop''), meta = None \<rparr> c"
  by (simp add: generateUpstream_def scrapeStep_def scrape_example exampleWorld_simps
      urlRequest_def js_def)

lemma trim_examples:
  "trim threeAdsText = threeAdsText"
  "trim bareThreeAdsText = bareThreeAdsText"
  "trim twoOfThreeAdsText = twoOfThreeAdsText"
  "trim twoAdsText = twoAdsText"
  "trim paddedAdText = paddedAdText"
  "trim truncatedText = truncatedText"
  "trim emptyArrayText = emptyArrayText"
  by (rule trim_self; simp add: threeAdsText_def bareThreeAdsText_def twoOfThreeAdsText_def
      twoAdsText_def paddedAdText_def truncatedText_def emptyArrayText_def js_def isWhiteSpace_def)+

lemma parse_examples:
  "exampleParse threeAdsText = Some (JObj [(js ''ads'', JArr threeAds)])"
  "exampleParse bareThreeAdsText = Some (JArr threeAds)"
  "exampleParse twoOfThreeAdsText = Some (JObj [(js ''ads'', JArr twoOfThreeAds)])"
  "exampleParse twoAdsText = Some (JObj [(js ''ads'', JArr twoAds)])"
  "exampleParse paddedAdText = Some (JObj [(js ''ads'', JArr [adObject (js '' A '') [] (js ''x'')])])"
  "exampleParse emptyArrayText = Some (JArr [])"
  "exampleParse truncatedText = None"
  by (simp_all add: exampleParse_def threeAdsText_def bareThreeAdsText_def twoOfThreeAdsText_def
      twoAdsText_def paddedAdText_def truncatedText_def emptyArrayText_def js_def)

lemma normalizeItem_adObject:
  "normalizeItem (adObject t d c) = Inr \<lparr> title = trim t, description = trim d, cta = trim c \<rparr>"
  by (simp add: normalizeItem_def readField_def normalizeField_def adObject_def js_def trim_def)

lemma trim_letters:
  "trim (js ''A'') = js ''A''" "trim (js ''B'') = js ''B''" "trim (js ''C'') = js ''C''"
  "trim (js ''D'') = js ''D''" "trim (js ''E'') = js ''E''" "trim (js ''F'') = js ''F''"
  "trim (js ''G'') = js ''G''" "trim (js ''H'') = js ''H''" "trim (js ''I'') = js ''I''"
  by (simp_all add: trim_def js_def isWhiteSpace_def)

lemma normalize_threeAds:
  "normalize threeAds =
     Inr [\<lparr> title = js ''A'', description = js ''B'', cta = js ''C'' \<rparr>,
          \<lparr> title = js ''D'', description = js ''E'', cta = js ''F'' \<rparr>,
          \<lparr> title = js ''G'', description = js ''H'', cta = js ''I'' \<rparr>]"
  by (simp add: normalize_def threeAds_def normalizeItem_adObject trim_letters valid_def)
     (simp add: js_def)


lemma handleContent_threeAds:
  "handleContent (exampleWorld c) b sc threeAdsText =
     Response 200
       (AdsBody \<lparr> source_url = url b, source_h1 = h1 sc, source_meta = meta sc,
                  variant = (variantOf b \<noteq> None) \<rparr>
          [\<lparr> title = js ''A'', description = js ''B'', cta = js ''C'' \<rparr>,
           \<lparr> title = js ''D'', description = js ''E'', cta = js ''F'' \<rparr>,
           \<lparr> title = js ''G'', description = js ''H'', cta = js ''I'' \<rparr>])"
  by (simp add: handleContent_def parseContent_def strictParse_def exampleWorld_simps
      parse_examples respond_def normalize_threeAds)

section \<open>Properties of the generation route\<close>

text \<open>
  C1. Whenever the generation route answers with status 200, the \<open>ads\<close> of the body
  are exactly three items, and the title, the description and the call to action of
  each are non-empty after trimming (they are already trimmed).
\<close>

theorem generate_200_three_valid_ads:
  assumes "status (fst (POST_generate W req)) = 200"
  shows "\<exists>src xs. body (fst (POST_generate W req)) = AdsBody src xs \<and> length xs = 3 \<and>
           (\<forall>a \<in> set xs.
              trim (title a) \<noteq> [] \<and> trim (description a) \<noteq> [] \<and> trim (cta a) \<noteq> [] \<and>
              trim (title a) = title a \<and> trim (description a) = description a \<and>
              trim (cta a) = cta a)"
proof -
  from POST_generate_200 [OF assms] obtain b sc c
    where eq: "fst (POST_generate W req) = handleContent W b sc (contentOf c)"
    by blast
  with assms have "status (handleContent W b sc (contentOf c)) = 200"
    by simp
  from handleContent_200 [OF this] obtain src xs parsed
    where bd: "body (handleContent W b sc (contentOf c)) = AdsBody src xs"
      and n: "normalize parsed = Inr xs" and len: "length xs = 3"
    by blast
  from normalize_Inr(2) [OF n]
  have "\<forall>a \<in> set xs.
          trim (title a) \<noteq> [] \<and> trim (description a) \<noteq> [] \<and> trim (cta a) \<noteq> [] \<and>
          trim (title a) = title a \<and> trim (description a) = description a \<and>
          trim (cta a) = cta a"
    by (simp add: valid_def)
  with bd len eq show ?thesis
    by auto
qed

theorem generate_200_three_valid_ads_witness:
  "status (fst (POST_generate (exampleWorld (Some threeAdsText)) (Inr urlRequest))) = 200 \<and>
   (\<exists>src xs.
      body (fst (POST_generate (exampleWorld (Some threeAdsText)) (Inr urlRequest))) =
        AdsBody src xs \<and> length xs = 3 \<and>
      (\<forall>a \<in> set xs.
         trim (title a) \<noteq> [] \<and> trim (description a) \<noteq> [] \<and> trim (cta a) \<noteq> [] \<and>
         trim (title a) = title a \<and> trim (description a) = description a \<and>
         trim (cta a) = cta a))"
proof -
  have h: "status (fst (POST_generate (exampleWorld (Some threeAdsText)) (Inr urlRequest))) = 200"
    by (simp add: POST_generate_upstream [OF upstream_urlRequest] contentOf_def trim_examples
        handleContent_threeAds)
  from h generate_200_three_valid_ads [OF h] show ?thesis
    by (rule conjI)
qed

text \<open>
  C9. A generation request whose body has neither \<open>url\<close> nor \<open>variantOf\<close> is
  answered with status 400 and a non-empty error message, and no outbound call is
  issued: neither the scrape fetch nor the completion call.
\<close>

theorem generate_without_url_and_variant_400:
  assumes "url b = None" and "variantOf b = None"
  shows "status (fst (POST_generate W (Inr b))) = 400 \<and>
         (\<exists>m. body (fst (POST_generate W (Inr b))) = ErrorBody m None None \<and> m \<noteq> []) \<and>
         snd (POST_generate W (Inr b)) = []"
  using assms by (simp add: POST_generate_def js_def)

theorem generate_without_url_and_variant_400_witness:
  "url emptyRequest = None \<and> variantOf emptyRequest = None \<and>
   status (fst (POST_generate (exampleWorld (Some threeAdsText)) (Inr emptyRequest))) = 400 \<and>
   snd (POST_generate (exampleWorld (Some threeAdsText)) (Inr emptyRequest)) = []"
proof -
  have u: "url emptyRequest = None" and v: "variantOf emptyRequest = None"
    by (simp_all add: emptyRequest_def)
  from generate_without_url_and_variant_400 [OF u v, of "exampleWorld (Some threeAdsText)"] u v
  show ?thesis by simp
qed

text \<open>
  C10. When the \<open>language\<close> of a generation request is absent or empty, every
  completion call the route issues carries the system message for \<open>Slovenian\<close> and
  the prompt \<open>buildPrompt\<close> builds for \<open>Slovenian\<close>, which names that language.
\<close>

theorem generate_default_language_slovenian:
  assumes "language b = None \<or> language b = Some []"
    and "CompletionCall r \<in> set (snd (POST_generate W (Inr b)))"
  shows "system_content r =
           js ''You output strictly the requested JSON and nothing else. Respond ONLY in '' @
           js ''Slovenian'' @ js ''. Do not use any other language.'' \<and>
         (\<exists>heading metaDescription. user_content r =
            buildPrompt (orEmpty (url b)) heading metaDescription (customPrompt b) (variantOf b)
              (Some (js ''Slovenian''))) \<and>
         (\<exists>p q. user_content r = p @ js ''Slovenian'' @ q)"
proof -
  from generate_calls [OF assms(2)] obtain sc where r: "r = generateRequest b sc"
    by blast
  from assms(1) have "strOr (language b) (js ''Slovenian'') = js ''Slovenian''"
    by (auto simp: strOr_def)
  then have sys: "system_content r =
           js ''You output strictly the requested JSON and nothing else. Respond ONLY in '' @
           js ''Slovenian'' @ js ''. Do not use any other language.''"
    and usr: "user_content r =
           buildPrompt (orEmpty (url b)) (h1 sc) (meta sc) (customPrompt b) (variantOf b)
             (Some (js ''Slovenian''))"
    unfolding r by (simp_all add: generateRequest_def)
  from buildPrompt_names_language obtain p q
    where "user_content r = p @ js ''Slovenian'' @ q"
    unfolding usr by blast
  then have named: "\<exists>p q. user_content r = p @ js ''Slovenian'' @ q"
    by blast
  have built: "\<exists>heading metaDescription. user_content r =
      buildPrompt (orEmpty (url b)) heading metaDescription (customPrompt b) (variantOf b)
        (Some (js ''Slovenian''))"
    by (intro exI) (rule usr)
  from sys built named show ?thesis
    by (intro conjI)
qed

theorem generate_default_language_slovenian_witness:
  "(language urlRequest = None \<or> language urlRequest = Some []) \<and>
   CompletionCall (generateRequest urlRequest \<lparr> h1 = Some (js ''Shop''), meta = None \<rparr>)
     \<in> set (snd (POST_generate (exampleWorld (Some threeAdsText)) (Inr urlRequest))) \<and>
   system_content (generateRequest urlRequest \<lparr> h1 = Some (js ''Shop''), meta = None \<rparr>) =
     js ''You output strictly the requested JSON and nothing else. Respond ONLY in '' @
     js ''Slovenian'' @ js ''. Do not use any other language.''"
proof -
  have l: "language urlRequest = None \<or> language urlRequest = Some []"
    by (simp add: urlRequest_def)
  have m: "CompletionCall (generateRequest urlRequest \<lparr> h1 = Some (js ''Shop''), meta = None \<rparr>)
     \<in> set (snd (POST_generate (exampleWorld (Some threeAdsText)) (Inr urlRequest)))"
    by (simp add: POST_generate_upstream [OF upstream_urlRequest])
  from generate_default_language_slovenian [OF l m] have
    "system_content (generateRequest urlRequest \<lparr> h1 = Some (js ''Shop''), meta = None \<rparr>) =
       js ''You output strictly the requested JSON and nothing else. Respond ONLY in '' @
       js ''Slovenian'' @ js ''. Do not use any other language.''"
    by (rule conjunct1)
  with l m show ?thesis
    by (intro conjI)
qed

text \<open>
  C8. \<open>buildPrompt\<close> decides in strict priority order, and each branch is given here
  by the text it returns. With \<open>variantOf\<close> present the result is the variation
  prompt around the base ad, whatever \<open>customPrompt\<close> is. Otherwise, with a
  \<open>customPrompt\<close> that is non-empty after trimming, the result is the custom
  instruction verbatim, the request for three variations and the shared style
  guidelines. Otherwise it is the generic copywriter prompt followed by the shared
  style guidelines.
\<close>

theorem buildPrompt_priority:
  "(variantOf' = Some v \<longrightarrow>
      buildPrompt u t m c variantOf' l = concat [
         js ''You are a performance Facebook ads copywriter.\<newline>'',
         js ''Generate EXACTLY 3 similar VARIATIONS to the given base ad, keeping the same '',
         js ''CTA. Language: '',
         languageOrDefault l,
         js ''.\<newline>\<newline>Base ad:\<newline>'',
         title v,
         js ''\<newline>\<newline>'',
         description v,
         js ''\<newline>\<newline>CTA: '',
         cta v,
         js ''\<newline>\<newline>Guidelines:\<newline>- Keep the core benefits and style '',
         js ''(emoji title + bullet-like short lines)\<newline>'',
         js ''- Avoid repeating the exact same phrases; rephrase creatively\<newline>'',
         js ''- Keep CTA identical to the base ad'',
         [0x27],
         js ''s CTA\<newline>- Respect the previous style rules (max title length, 3'',
         [0xE2, 0x20AC, 0x201C],
         js ''6 short lines, no URLs)\<newline>\<newline>Return a JSON object with key \"ads\" '',
         js ''whose value is an array of items with keys: title, description, cta. Example:\<newline>'',
         js ''{\"ads\":[{\"title\":\"...\",\"description\":\"...\",\"cta\":\"'',
         cta v,
         js ''\"}]]}'']) \<and>
   (variantOf' = None \<and> c = Some p \<and> trim p \<noteq> [] \<longrightarrow>
      buildPrompt u t m c variantOf' l = concat [
         p,
         js ''\<newline>\<newline>Generate EXACTLY 3 distinct Facebook ad variations in '',
         languageOrDefault l,
         js ''. Output strictly JSON.\<newline>'',
         js ''\<newline>Context:\<newline>- Product URL: '',
         u,
         js ''\<newline>- Page title (h1): '',
         orEmpty t,
         js ''\<newline>- Meta description: '',
         orEmpty m,
         js ''\<newline>\<newline>Style guidelines (match these exactly):\<newline>'',
         js ''- Catchy title with an emoji at the start (e.g., '',
         [0xE2, 0x153, 0xA8],
         js '', '',
         [0xE2, 0x2DC, 0x20AC, 0xEF, 0xB8],
         js '', '',
         [0x11F, 0x178, 0x152, 0xA7, 0xEF, 0xB8],
         js '', '',
         [0xE2, 0x161, 0xA1],
         js '')\<newline>- Description must be short, scannable bullet-like lines with emojis\<newline>'',
         js ''- 3'',
         [0xE2, 0x20AC, 0x201C],
         js ''5 lines in the description, no URLs and no CTA inside description\<newline>'',
         js ''\<newline>Rules:\<newline>- title: max 9 words, start with an emoji\<newline>'',
         js ''- description: 3'',
         [0xE2, 0x20AC, 0x201C],
         js ''6 kratkih vrstic, vsaka vrstica naj se za'',
         [0xC4],
         js ''ne z emoji ali kratko frazo\<newline>- cta: 1'',
         [0xE2, 0x20AC, 0x201C],
         js ''5 besed; pick a CTA that BEST fits the page intent (infer from URL, h1, meta). '',
         js ''It may include a leading emoji and/or a trailing down arrow (\"'',
         [0x11F, 0x178, 0x2018, 0x2021],
         js ''\").\<newline>- '',
         [0xC4],
         js ''e gre za e'',
         [0xE2, 0x20AC, 0x2018],
         js ''commerce produkt/ko'',
         [0xC5, 0xA1],
         js ''arico/checkout: uporabi \"Kupi\" ali \"Naro'',
         [0xC4],
         js ''i zdaj\"\<newline>- '',
         [0xC4],
         js ''e gre za informativno/landing stran ali blog: uporabi \"Izvedi ve'',
         [0xC4],
         js ''\"\<newline>- '',
         [0xC4],
         js ''e gre za prijavo/registracijo: uporabi \"Prijavi se\"\<newline>'',
         js ''- '',
         [0xC4],
         js ''e gre za kontakt/storitve/ponudbo: uporabi \"Kontaktiraj nas\" ali \"Zahtevaj '',
         js ''ponudbo\"\<newline>IMPORTANT: All text (title, description, CTA) MUST be written '',
         js ''in '',
         languageOrDefault l,
         js ''. Do not use any other language. Avoid untranslated words.\<newline>'',
         js ''Vsak od treh oglasov naj ima CTA, ki je lahko razli'',
         [0xC4],
         js ''en, vendar vedno skladen z namenom strani.\<newline>'',
         js ''\<newline>Return a JSON object with key \"ads\" whose value is an array of '',
         js ''3 items. Each item must include keys: title, description, cta. Example:\<newline>'',
         js ''{\"ads\":[\<newline>  {\"title\":\"...\",\"description\":\"...\",\"cta\":\"<primeren '',
         js ''CTA glede na namen>\"},\<newline>  {\"title\":\"...\",\"description\":\"...\",\"cta\":\"<primeren '',
         js ''CTA glede na namen>\"},\<newline>  {\"title\":\"...\",\"description\":\"...\",\"cta\":\"<primeren '',
         js ''CTA glede na namen>\"}\<newline>]}'']) \<and>
   (variantOf' = None \<and> (c = None \<or> c = Some p \<and> trim p = []) \<longrightarrow>
      buildPrompt u t m c variantOf' l = concat [
         js ''You are a performance Facebook ads copywriter.\<newline>'',
         js ''Generate EXACTLY 3 distinct Facebook ad variations.\<newline>'',
         js '' Language: '',
         languageOrDefault l,
         js ''. Be persuasive, concise, and compliant. Output JSON only.\<newline>'',
         js ''\<newline>'',
         js ''\<newline>Context:\<newline>- Product URL: '',
         u,
         js ''\<newline>- Page title (h1): '',
         orEmpty t,
         js ''\<newline>- Meta description: '',
         orEmpty m,
         js ''\<newline>\<newline>Style guidelines (match these exactly):\<newline>'',
         js ''- Catchy title with an emoji at the start (e.g., '',
         [0xE2, 0x153, 0xA8],
         js '', '',
         [0xE2, 0x2DC, 0x20AC, 0xEF, 0xB8],
         js '', '',
         [0x11F, 0x178, 0x152, 0xA7, 0xEF, 0xB8],
         js '', '',
         [0xE2, 0x161, 0xA1],
         js '')\<newline>- Description must be short, scannable bullet-like lines with emojis\<newline>'',
         js ''- 3'',
         [0xE2, 0x20AC, 0x201C],
         js ''5 lines in the description, no URLs and no CTA inside description\<newline>'',
         js ''\<newline>Rules:\<newline>- title: max 9 words, start with an emoji\<newline>'',
         js ''- description: 3'',
         [0xE2, 0x20AC, 0x201C],
         js ''6 kratkih vrstic, vsaka vrstica naj se za'',
         [0xC4],
         js ''ne z emoji ali kratko frazo\<newline>- cta: 1'',
         [0xE2, 0x20AC, 0x201C],
         js ''5 besed; pick a CTA that BEST fits the page intent (infer from URL, h1, meta). '',
         js ''It may include a leading emoji and/or a trailing down arrow (\"'',
         [0x11F, 0x178, 0x2018, 0x2021],
         js ''\").\<newline>- '',
         [0xC4],
         js ''e gre za e'',
         [0xE2, 0x20AC, 0x2018],
         js ''commerce produkt/ko'',
         [0xC5, 0xA1],
         js ''arico/checkout: uporabi \"Kupi\" ali \"Naro'',
         [0xC4],
         js ''i zdaj\"\<newline>- '',
         [0xC4],
         js ''e gre za informativno/landing stran ali blog: uporabi \"Izvedi ve'',
         [0xC4],
         js ''\"\<newline>- '',
         [0xC4],
         js ''e gre za prijavo/registracijo: uporabi \"Prijavi se\"\<newline>'',
         js ''- '',
         [0xC4],
         js ''e gre za kontakt/storitve/ponudbo: uporabi \"Kontaktiraj nas\" ali \"Zahtevaj '',
         js ''ponudbo\"\<newline>IMPORTANT: All text (title, description, CTA) MUST be written '',
         js ''in '',
         languageOrDefault l,
         js ''. Do not use any other language. Avoid untranslated words.\<newline>'',
         js ''Vsak od treh oglasov naj ima CTA, ki je lahko razli'',
         [0xC4],
         js ''en, vendar vedno skladen z namenom strani.\<newline>'',
         js ''\<newline>Return a JSON object with key \"ads\" whose value is an array of '',
         js ''3 items. Each item must include keys: title, description, cta. Example:\<newline>'',
         js ''{\"ads\":[\<newline>  {\"title\":\"...\",\"description\":\"...\",\"cta\":\"<primeren '',
         js ''CTA glede na namen>\"},\<newline>  {\"title\":\"...\",\"description\":\"...\",\"cta\":\"<primeren '',
         js ''CTA glede na namen>\"},\<newline>  {\"title\":\"...\",\"description\":\"...\",\"cta\":\"<primeren '',
         js ''CTA glede na namen>\"}\<newline>]}''])"
  by (auto simp: buildPrompt_def Let_def variationPrompt_def customInstruction_def
      genericInstruction_def sharedGuidelines_def js_def)

theorem buildPrompt_priority_witness:
  "buildPrompt (js ''https://example.com/p'') (Some (js ''Shop'')) None (Some (js ''Sale!'')) (Some baseAd) None = concat [
      js ''You are a performance Facebook ads copywriter.\<newline>'',
      js ''Generate EXACTLY 3 similar VARIATIONS to the given base ad, keeping the same '',
      js ''CTA. Language: Slovenian.\<newline>\<newline>'',
      js ''Base ad:\<newline>A\<newline>\<newline>B\<newline>'',
      js ''\<newline>CTA: C\<newline>\<newline>Guidelines:\<newline>'',
      js ''- Keep the core benefits and style (emoji title + bullet-like short lines)\<newline>'',
      js ''- Avoid repeating the exact same phrases; rephrase creatively\<newline>'',
      js ''- Keep CTA identical to the base ad'',
      [0x27],
      js ''s CTA\<newline>- Respect the previous style rules (max title length, 3'',
      [0xE2, 0x20AC, 0x201C],
      js ''6 short lines, no URLs)\<newline>\<newline>Return a JSON object with key \"ads\" '',
      js ''whose value is an array of items with keys: title, description, cta. Example:\<newline>'',
      js ''{\"ads\":[{\"title\":\"...\",\"description\":\"...\",\"cta\":\"C\"}]]}''] \<and>
   trim (js ''Sale!'') \<noteq> [] \<and>
   buildPrompt (js ''https://example.com/p'') (Some (js ''Shop'')) None (Some (js ''Sale!'')) None None = concat [
      js ''Sale!\<newline>\<newline>Generate EXACTLY 3 distinct Facebook ad variations '',
      js ''in Slovenian. Output strictly JSON.\<newline>'',
      js ''\<newline>Context:\<newline>- Product URL: https://example.com/p\<newline>'',
      js ''- Page title (h1): Shop\<newline>- Meta description: \<newline>'',
      js ''\<newline>Style guidelines (match these exactly):\<newline>'',
      js ''- Catchy title with an emoji at the start (e.g., '',
      [0xE2, 0x153, 0xA8],
      js '', '',
      [0xE2, 0x2DC, 0x20AC, 0xEF, 0xB8],
      js '', '',
      [0x11F, 0x178, 0x152, 0xA7, 0xEF, 0xB8],
      js '', '',
      [0xE2, 0x161, 0xA1],
      js '')\<newline>- Description must be short, scannable bullet-like lines with emojis\<newline>'',
      js ''- 3'',
      [0xE2, 0x20AC, 0x201C],
      js ''5 lines in the description, no URLs and no CTA inside description\<newline>'',
      js ''\<newline>Rules:\<newline>- title: max 9 words, start with an emoji\<newline>'',
      js ''- description: 3'',
      [0xE2, 0x20AC, 0x201C],
      js ''6 kratkih vrstic, vsaka vrstica naj se za'',
      [0xC4],
      js ''ne z emoji ali kratko frazo\<newline>- cta: 1'',
      [0xE2, 0x20AC, 0x201C],
      js ''5 besed; pick a CTA that BEST fits the page intent (infer from URL, h1, meta). '',
      js ''It may include a leading emoji and/or a trailing down arrow (\"'',
      [0x11F, 0x178, 0x2018, 0x2021],
      js ''\").\<newline>- '',
      [0xC4],
      js ''e gre za e'',
      [0xE2, 0x20AC, 0x2018],
      js ''commerce produkt/ko'',
      [0xC5, 0xA1],
      js ''arico/checkout: uporabi \"Kupi\" ali \"Naro'',
      [0xC4],
      js ''i zdaj\"\<newline>- '',
      [0xC4],
      js ''e gre za informativno/landing stran ali blog: uporabi \"Izvedi ve'',
      [0xC4],
      js ''\"\<newline>- '',
      [0xC4],
      js ''e gre za prijavo/registracijo: uporabi \"Prijavi se\"\<newline>'',
      js ''- '',
      [0xC4],
      js ''e gre za kontakt/storitve/ponudbo: uporabi \"Kontaktiraj nas\" ali \"Zahtevaj '',
      js ''ponudbo\"\<newline>IMPORTANT: All text (title, description, CTA) MUST be written '',
      js ''in Slovenian. Do not use any other language. Avoid untranslated words.\<newline>'',
      js ''Vsak od treh oglasov naj ima CTA, ki je lahko razli'',
      [0xC4],
      js ''en, vendar vedno skladen z namenom strani.\<newline>'',
      js ''\<newline>Return a JSON object with key \"ads\" whose value is an array of '',
      js ''3 items. Each item must include keys: title, description, cta. Example:\<newline>'',
      js ''{\"ads\":[\<newline>  {\"title\":\"...\",\"description\":\"...\",\"cta\":\"<primeren '',
      js ''CTA glede na namen>\"},\<newline>  {\"title\":\"...\",\"description\":\"...\",\"cta\":\"<primeren '',
      js ''CTA glede na namen>\"},\<newline>  {\"title\":\"...\",\"description\":\"...\",\"cta\":\"<primeren '',
      js ''CTA glede na namen>\"}\<newline>]}''] \<and>
   trim (js ''  '') = [] \<and>
   buildPrompt (js ''https://example.com/p'') (Some (js ''Shop'')) None (Some (js ''  '')) None None = concat [
      js ''You are a performance Facebook ads copywriter.\<newline>'',
      js ''Generate EXACTLY 3 distinct Facebook ad variations.\<newline>'',
      js '' Language: Slovenian. Be persuasive, concise, and compliant. Output JSON only.\<newline>'',
      js ''\<newline>\<newline>Context:\<newline>- Product URL: https://example.com/p\<newline>'',
      js ''- Page title (h1): Shop\<newline>- Meta description: \<newline>'',
      js ''\<newline>Style guidelines (match these exactly):\<newline>'',
      js ''- Catchy title with an emoji at the start (e.g., '',
      [0xE2, 0x153, 0xA8],
      js '', '',
      [0xE2, 0x2DC, 0x20AC, 0xEF, 0xB8],
      js '', '',
      [0x11F, 0x178, 0x152, 0xA7, 0xEF, 0xB8],
      js '', '',
      [0xE2, 0x161, 0xA1],
      js '')\<newline>- Description must be short, scannable bullet-like lines with emojis\<newline>'',
      js ''- 3'',
      [0xE2, 0x20AC, 0x201C],
      js ''5 lines in the description, no URLs and no CTA inside description\<newline>'',
      js ''\<newline>Rules:\<newline>- title: max 9 words, start with an emoji\<newline>'',
      js ''- description: 3'',
      [0xE2, 0x20AC, 0x201C],
      js ''6 kratkih vrstic, vsaka vrstica naj se za'',
      [0xC4],
      js ''ne z emoji ali kratko frazo\<newline>- cta: 1'',
      [0xE2, 0x20AC, 0x201C],
      js ''5 besed; pick a CTA that BEST fits the page intent (infer from URL, h1, meta). '',
      js ''It may include a leading emoji and/or a trailing down arrow (\"'',
      [0x11F, 0x178, 0x2018, 0x2021],
      js ''\").\<newline>- '',
      [0xC4],
      js ''e gre za e'',
      [0xE2, 0x20AC, 0x2018],
      js ''commerce produkt/ko'',
      [0xC5, 0xA1],
      js ''arico/checkout: uporabi \"Kupi\" ali \"Naro'',
      [0xC4],
      js ''i zdaj\"\<newline>- '',
      [0xC4],
      js ''e gre za informativno/landing stran ali blog: uporabi \"Izvedi ve'',
      [0xC4],
      js ''\"\<newline>- '',
      [0xC4],
      js ''e gre za prijavo/registracijo: uporabi \"Prijavi se\"\<newline>'',
      js ''- '',
      [0xC4],
      js ''e gre za kontakt/storitve/ponudbo: uporabi \"Kontaktiraj nas\" ali \"Zahtevaj '',
      js ''ponudbo\"\<newline>IMPORTANT: All text (title, description, CTA) MUST be written '',
      js ''in Slovenian. Do not use any other language. Avoid untranslated words.\<newline>'',
      js ''Vsak od treh oglasov naj ima CTA, ki je lahko razli'',
      [0xC4],
      js ''en, vendar vedno skladen z namenom strani.\<newline>'',
      js ''\<newline>Return a JSON object with key \"ads\" whose value is an array of '',
      js ''3 items. Each item must include keys: title, description, cta. Example:\<newline>'',
      js ''{\"ads\":[\<newline>  {\"title\":\"...\",\"description\":\"...\",\"cta\":\"<primeren '',
      js ''CTA glede na namen>\"},\<newline>  {\"title\":\"...\",\"description\":\"...\",\"cta\":\"<primeren '',
      js ''CTA glede na namen>\"},\<newline>  {\"title\":\"...\",\"description\":\"...\",\"cta\":\"<primeren '',
      js ''CTA glede na namen>\"}\<newline>]}'']"
proof -
  have t1: "trim (js ''Sale!'') \<noteq> []" and t2: "trim (js ''  '') = []"
    by (simp_all add: trim_def js_def isWhiteSpace_def)
  have a: "buildPrompt (js ''https://example.com/p'') (Some (js ''Shop'')) None (Some (js ''Sale!'')) (Some baseAd) None = concat [
      js ''You are a performance Facebook ads copywriter.\<newline>'',
      js ''Generate EXACTLY 3 similar VARIATIONS to the given base ad, keeping the same '',
      js ''CTA. Language: Slovenian.\<newline>\<newline>'',
      js ''Base ad:\<newline>A\<newline>\<newline>B\<newline>'',
      js ''\<newline>CTA: C\<newline>\<newline>Guidelines:\<newline>'',
      js ''- Keep the core benefits and style (emoji title + bullet-like short lines)\<newline>'',
      js ''- Avoid repeating the exact same phrases; rephrase creatively\<newline>'',
      js ''- Keep CTA identical to the base ad'',
      [0x27],
      js ''s CTA\<newline>- Respect the previous style rules (max title length, 3'',
      [0xE2, 0x20AC, 0x201C],
      js ''6 short lines, no URLs)\<newline>\<newline>Return a JSON object with key \"ads\" '',
      js ''whose value is an array of items with keys: title, description, cta. Example:\<newline>'',
      js ''{\"ads\":[{\"title\":\"...\",\"description\":\"...\",\"cta\":\"C\"}]]}'']"
    using buildPrompt_priority
      [where variantOf' = "Some baseAd" and v = baseAd and u = "js ''https://example.com/p''"
         and t = "Some (js ''Shop'')" and m = None and c = "Some (js ''Sale!'')" and l = None]
    by (simp add: languageOrDefault_def orEmpty_def strOr_def baseAd_def js_def)
  have b: "buildPrompt (js ''https://example.com/p'') (Some (js ''Shop'')) None (Some (js ''Sale!'')) None None = concat [
      js ''Sale!\<newline>\<newline>Generate EXACTLY 3 distinct Facebook ad variations '',
      js ''in Slovenian. Output strictly JSON.\<newline>'',
      js ''\<newline>Context:\<newline>- Product URL: https://example.com/p\<newline>'',
      js ''- Page title (h1): Shop\<newline>- Meta description: \<newline>'',
      js ''\<newline>Style guidelines (match these exactly):\<newline>'',
      js ''- Catchy title with an emoji at the start (e.g., '',
      [0xE2, 0x153, 0xA8],
      js '', '',
      [0xE2, 0x2DC, 0x20AC, 0xEF, 0xB8],
      js '', '',
      [0x11F, 0x178, 0x152, 0xA7, 0xEF, 0xB8],
      js '', '',
      [0xE2, 0x161, 0xA1],
      js '')\<newline>- Description must be short, scannable bullet-like lines with emojis\<newline>'',
      js ''- 3'',
      [0xE2, 0x20AC, 0x201C],
      js ''5 lines in the description, no URLs and no CTA inside description\<newline>'',
      js ''\<newline>Rules:\<newline>- title: max 9 words, start with an emoji\<newline>'',
      js ''- description: 3'',
      [0xE2, 0x20AC, 0x201C],
      js ''6 kratkih vrstic, vsaka vrstica naj se za'',
      [0xC4],
      js ''ne z emoji ali kratko frazo\<newline>- cta: 1'',
      [0xE2, 0x20AC, 0x201C],
      js ''5 besed; pick a CTA that BEST fits the page intent (infer from URL, h1, meta). '',
      js ''It may include a leading emoji and/or a trailing down arrow (\"'',
      [0x11F, 0x178, 0x2018, 0x2021],
      js ''\").\<newline>- '',
      [0xC4],
      js ''e gre za e'',
      [0xE2, 0x20AC, 0x2018],
      js ''commerce produkt/ko'',
      [0xC5, 0xA1],
      js ''arico/checkout: uporabi \"Kupi\" ali \"Naro'',
      [0xC4],
      js ''i zdaj\"\<newline>- '',
      [0xC4],
      js ''e gre za informativno/landing stran ali blog: uporabi \"Izvedi ve'',
      [0xC4],
      js ''\"\<newline>- '',
      [0xC4],
      js ''e gre za prijavo/registracijo: uporabi \"Prijavi se\"\<newline>'',
      js ''- '',
      [0xC4],
      js ''e gre za kontakt/storitve/ponudbo: uporabi \"Kontaktiraj nas\" ali \"Zahtevaj '',
      js ''ponudbo\"\<newline>IMPORTANT: All text (title, description, CTA) MUST be written '',
      js ''in Slovenian. Do not use any other language. Avoid untranslated words.\<newline>'',
      js ''Vsak od treh oglasov naj ima CTA, ki je lahko razli'',
      [0xC4],
      js ''en, vendar vedno skladen z namenom strani.\<newline>'',
      js ''\<newline>Return a JSON object with key \"ads\" whose value is an array of '',
      js ''3 items. Each item must include keys: title, description, cta. Example:\<newline>'',
      js ''{\"ads\":[\<newline>  {\"title\":\"...\",\"description\":\"...\",\"cta\":\"<primeren '',
      js ''CTA glede na namen>\"},\<newline>  {\"title\":\"...\",\"description\":\"...\",\"cta\":\"<primeren '',
      js ''CTA glede na namen>\"},\<newline>  {\"title\":\"...\",\"description\":\"...\",\"cta\":\"<primeren '',
      js ''CTA glede na namen>\"}\<newline>]}'']"
    using t1 buildPrompt_priority
      [where variantOf' = None and u = "js ''https://example.com/p''"
         and t = "Some (js ''Shop'')" and m = None and c = "Some (js ''Sale!'')"
         and p = "js ''Sale!''" and l = None]
    by (simp add: languageOrDefault_def orEmpty_def strOr_def js_def)
  have c: "buildPrompt (js ''https://example.com/p'') (Some (js ''Shop'')) None (Some (js ''  '')) None None = concat [
      js ''You are a performance Facebook ads copywriter.\<newline>'',
      js ''Generate EXACTLY 3 distinct Facebook ad variations.\<newline>'',
      js '' Language: Slovenian. Be persuasive, concise, and compliant. Output JSON only.\<newline>'',
      js ''\<newline>\<newline>Context:\<newline>- Product URL: https://example.com/p\<newline>'',
      js ''- Page title (h1): Shop\<newline>- Meta description: \<newline>'',
      js ''\<newline>Style guidelines (match these exactly):\<newline>'',
      js ''- Catchy title with an emoji at the start (e.g., '',
      [0xE2, 0x153, 0xA8],
      js '', '',
      [0xE2, 0x2DC, 0x20AC, 0xEF, 0xB8],
      js '', '',
      [0x11F, 0x178, 0x152, 0xA7, 0xEF, 0xB8],
      js '', '',
      [0xE2, 0x161, 0xA1],
      js '')\<newline>- Description must be short, scannable bullet-like lines with emojis\<newline>'',
      js ''- 3'',
      [0xE2, 0x20AC, 0x201C],
      js ''5 lines in the description, no URLs and no CTA inside description\<newline>'',
      js ''\<newline>Rules:\<newline>- title: max 9 words, start with an emoji\<newline>'',
      js ''- description: 3'',
      [0xE2, 0x20AC, 0x201C],
      js ''6 kratkih vrstic, vsaka vrstica naj se za'',
      [0xC4],
      js ''ne z emoji ali kratko frazo\<newline>- cta: 1'',
      [0xE2, 0x20AC, 0x201C],
      js ''5 besed; pick a CTA that BEST fits the page intent (infer from URL, h1, meta). '',
      js ''It may include a leading emoji and/or a trailing down arrow (\"'',
      [0x11F, 0x178, 0x2018, 0x2021],
      js ''\").\<newline>- '',
      [0xC4],
      js ''e gre za e'',
      [0xE2, 0x20AC, 0x2018],
      js ''commerce produkt/ko'',
      [0xC5, 0xA1],
      js ''arico/checkout: uporabi \"Kupi\" ali \"Naro'',
      [0xC4],
      js ''i zdaj\"\<newline>- '',
      [0xC4],
      js ''e gre za informativno/landing stran ali blog: uporabi \"Izvedi ve'',
      [0xC4],
      js ''\"\<newline>- '',
      [0xC4],
      js ''e gre za prijavo/registracijo: uporabi \"Prijavi se\"\<newline>'',
      js ''- '',
      [0xC4],
      js ''e gre za kontakt/storitve/ponudbo: uporabi \"Kontaktiraj nas\" ali \"Zahtevaj '',
      js ''ponudbo\"\<newline>IMPORTANT: All text (title, description, CTA) MUST be written '',
      js ''in Slovenian. Do not use any other language. Avoid untranslated words.\<newline>'',
      js ''Vsak od treh oglasov naj ima CTA, ki je lahko razli'',
      [0xC4],
      js ''en, vendar vedno skladen z namenom strani.\<newline>'',
      js ''\<newline>Return a JSON object with key \"ads\" whose value is an array of '',
      js ''3 items. Each item must include keys: title, description, cta. Example:\<newline>'',
      js ''{\"ads\":[\<newline>  {\"title\":\"...\",\"description\":\"...\",\"cta\":\"<primeren '',
      js ''CTA glede na namen>\"},\<newline>  {\"title\":\"...\",\"description\":\"...\",\"cta\":\"<primeren '',
      js ''CTA glede na namen>\"},\<newline>  {\"title\":\"...\",\"description\":\"...\",\"cta\":\"<primeren '',
      js ''CTA glede na namen>\"}\<newline>]}'']"
    using t2 buildPrompt_priority
      [where variantOf' = None and u = "js ''https://example.com/p''"
         and t = "Some (js ''Shop'')" and m = None and c = "Some (js ''  '')"
         and p = "js ''  ''" and l = None]
    by (simp add: languageOrDefault_def orEmpty_def strOr_def js_def)
  from a t1 b t2 c show ?thesis
    by (intro conjI)
qed

lemma POST_translate_200:
  assumes "status (fst (POST_translate W req)) = 200"
  shows "\<exists>b c. req = Inr b \<and> translateUpstream W b c \<and>
           fst (POST_translate W req) = handleTranslation W (contentOf c)"
  using assms
  by (auto simp: POST_translate_def translateUpstream_def catchTranslate_def
           split: sum.splits if_splits)

lemma POST_translate_upstream:
  assumes "translateUpstream W b c"
  shows "POST_translate W (Inr b) =
           (handleTranslation W (contentOf c), [CompletionCall (translateRequest W b)])"
  using assms
  by (auto simp: POST_translate_def translateUpstream_def)

lemma translateResult_eq:
  "translateResult W content = xs \<and> xs \<noteq> [] \<longleftrightarrow>
   (\<exists>kvs. JSON_parse W content = Some (JObj kvs) \<and> map_of kvs (js ''ads'') = Some (JArr xs) \<and> xs \<noteq> [])"
proof (cases "JSON_parse W content")
  case None
  then show ?thesis by (auto simp: translateResult_def)
next
  case (Some parsed)
  then show ?thesis
    by (cases parsed) (auto simp: translateResult_def split: option.splits json.splits)
qed

lemma handleTranslation_200:
  assumes "status (handleTranslation W content) = 200"
  shows "\<exists>kvs xs. JSON_parse W content = Some (JObj kvs) \<and>
           map_of kvs (js ''ads'') = Some (JArr xs) \<and> xs \<noteq> [] \<and>
           handleTranslation W content = Response 200 (TrAdsBody xs)"
proof -
  from assms have ne: "translateResult W content \<noteq> []"
    and eq: "handleTranslation W content = Response 200 (TrAdsBody (translateResult W content))"
    by (auto simp: handleTranslation_def Let_def split: if_splits)
  from ne translateResult_eq [of W content "translateResult W content"] eq
  show ?thesis by auto
qed

lemma handleTranslation_ads:
  assumes "JSON_parse W content = Some (JObj kvs)"
    and "map_of kvs (js ''ads'') = Some (JArr xs)" and "xs \<noteq> []"
  shows "handleTranslation W content = Response 200 (TrAdsBody xs)"
  using assms by (simp add: handleTranslation_def translateResult_def)

lemma upstream_translateOne:
  "translateUpstream (exampleWorld c) translateOne c"
  by (simp add: translateUpstream_def exampleWorld_simps translateOne_def js_def)


lemma handleTranslation_examples:
  "handleTranslation (exampleWorld c) threeAdsText = Response 200 (TrAdsBody threeAds)"
  "handleTranslation (exampleWorld c) twoAdsText = Response 200 (TrAdsBody twoAds)"
  "handleTranslation (exampleWorld c) paddedAdText =
     Response 200 (TrAdsBody [adObject (js '' A '') [] (js ''x'')])"
  "handleTranslation (exampleWorld c) bareThreeAdsText =
     Response 502 (TrErrorBody (js ''Neveljaven JSON iz OpenAI.'') (Some bareThreeAdsText))"
  "handleTranslation (exampleWorld c) truncatedText =
     Response 502 (TrErrorBody (js ''Neveljaven JSON iz OpenAI.'') (Some truncatedText))"
  by (simp_all add: handleTranslation_def translateResult_def exampleWorld_simps parse_examples
      threeAds_def twoAds_def)

section \<open>Properties of the translation route\<close>

text \<open>
  C2, as the code has it. Whenever the translation route answers with status 200, the
  \<open>ads\<close> of the body are the non-empty array found under the key \<open>ads\<close> of the
  parsed upstream JSON, returned as they are: the route does not trim, coerce or drop
  anything.
\<close>

theorem translate_200_returns_upstream_ads:
  assumes "status (fst (POST_translate W req)) = 200"
  shows "\<exists>b c kvs xs. req = Inr b \<and> translateUpstream W b c \<and>
           JSON_parse W (contentOf c) = Some (JObj kvs) \<and>
           map_of kvs (js ''ads'') = Some (JArr xs) \<and> xs \<noteq> [] \<and>
           body (fst (POST_translate W req)) = TrAdsBody xs"
proof -
  from POST_translate_200 [OF assms] obtain b c
    where req: "req = Inr b" and up: "translateUpstream W b c"
      and eq: "fst (POST_translate W req) = handleTranslation W (contentOf c)"
    by blast
  from assms eq have "status (handleTranslation W (contentOf c)) = 200"
    by simp
  from handleTranslation_200 [OF this] obtain kvs xs
    where "JSON_parse W (contentOf c) = Some (JObj kvs)"
      and "map_of kvs (js ''ads'') = Some (JArr xs)" and "xs \<noteq> []"
      and "handleTranslation W (contentOf c) = Response 200 (TrAdsBody xs)"
    by blast
  with req up eq show ?thesis
    by auto
qed

theorem translate_200_returns_upstream_ads_witness:
  "status (fst (POST_translate (exampleWorld (Some threeAdsText)) (Inr translateOne))) = 200 \<and>
   (\<exists>b c kvs xs. (Inr translateOne :: thrown + TranslateBody) = Inr b \<and>
      translateUpstream (exampleWorld (Some threeAdsText)) b c \<and>
      JSON_parse (exampleWorld (Some threeAdsText)) (contentOf c) = Some (JObj kvs) \<and>
      map_of kvs (js ''ads'') = Some (JArr xs) \<and> xs \<noteq> [] \<and>
      body (fst (POST_translate (exampleWorld (Some threeAdsText)) (Inr translateOne))) =
        TrAdsBody xs)"
proof -
  have h: "status (fst (POST_translate (exampleWorld (Some threeAdsText)) (Inr translateOne))) = 200"
    by (simp add: POST_translate_upstream [OF upstream_translateOne] contentOf_def trim_examples
        handleTranslation_examples)
  from h translate_200_returns_upstream_ads [OF h] show ?thesis
    by (rule conjI)
qed

text \<open>
  C2 as stated fails: an upstream item with a padded title and an empty description is
  returned with status 200 unchanged, although the Normalizer would trim the title and
  drop the item.
\<close>

theorem translate_not_normalized_counterexample:
  "fst (POST_translate (exampleWorld (Some paddedAdText)) (Inr translateOne)) =
     Response 200 (TrAdsBody [adObject (js '' A '') [] (js ''x'')]) \<and>
   adObject (js '' A '') [] (js ''x'') =
     JObj [(js ''title'', JStr (js '' A '')), (js ''description'', JStr []),
           (js ''cta'', JStr (js ''x''))] \<and>
   trim (js '' A '') \<noteq> js '' A '' \<and>
   normalizeItem (adObject (js '' A '') [] (js ''x'')) =
     Inr \<lparr> title = js ''A'', description = [], cta = js ''x'' \<rparr> \<and>
   \<not> valid \<lparr> title = js ''A'', description = [], cta = js ''x'' \<rparr>"
  by (simp add: POST_translate_upstream [OF upstream_translateOne] contentOf_def trim_examples
      handleTranslation_examples normalizeItem_adObject valid_def)
     (simp add: adObject_def trim_def js_def isWhiteSpace_def)

text \<open>
  C7, as the code has it. Whenever a translation request is answered with status 200,
  its \<open>ads\<close> was an array and the \<open>ads\<close> of the response hold at least one item;
  their number is not bounded by the number of ads sent.
\<close>

theorem translate_200_at_least_one:
  assumes "status (fst (POST_translate W (Inr b))) = 200"
  shows "\<exists>input xs. request_ads b = Some (JArr input) \<and>
           body (fst (POST_translate W (Inr b))) = TrAdsBody xs \<and> 1 \<le> length xs"
proof -
  from POST_translate_200 [OF assms] obtain c
    where up: "translateUpstream W b c"
      and eq: "fst (POST_translate W (Inr b)) = handleTranslation W (contentOf c)"
    by blast
  from up have "isArray (request_ads b)"
    by (simp add: translateUpstream_def)
  then obtain input where inp: "request_ads b = Some (JArr input)"
    by (cases "request_ads b" rule: isArray.cases) simp_all
  from assms eq have "status (handleTranslation W (contentOf c)) = 200"
    by simp
  from handleTranslation_200 [OF this] obtain xs
    where "xs \<noteq> []" and "handleTranslation W (contentOf c) = Response 200 (TrAdsBody xs)"
    by blast
  with eq have "body (fst (POST_translate W (Inr b))) = TrAdsBody xs" and "1 \<le> length xs"
    by (simp_all add: Suc_le_eq)
  with inp show ?thesis
    by blast
qed

theorem translate_200_at_least_one_witness:
  "status (fst (POST_translate (exampleWorld (Some twoAdsText)) (Inr translateOne))) = 200 \<and>
   (\<exists>input xs. request_ads translateOne = Some (JArr input) \<and>
      body (fst (POST_translate (exampleWorld (Some twoAdsText)) (Inr translateOne))) =
        TrAdsBody xs \<and> 1 \<le> length xs)"
proof -
  have h: "status (fst (POST_translate (exampleWorld (Some twoAdsText)) (Inr translateOne))) = 200"
    by (simp add: POST_translate_upstream [OF upstream_translateOne] contentOf_def trim_examples
        handleTranslation_examples)
  from h translate_200_at_least_one [OF h] show ?thesis
    by (rule conjI)
qed

text \<open>
  C7 as stated fails: a request with one ad is answered with status 200 and three ads
  when the upstream response holds three.
\<close>

theorem translate_more_than_requested_counterexample:
  "request_ads translateOne = Some (JArr [adObject (js ''A'') (js ''B'') (js ''C'')]) \<and>
   fst (POST_translate (exampleWorld (Some threeAdsText)) (Inr translateOne)) =
     Response 200 (TrAdsBody threeAds) \<and>
   length threeAds = 3 \<and>
   \<not> length threeAds \<le> length [adObject (js ''A'') (js ''B'') (js ''C'')]"
  by (simp add: POST_translate_upstream [OF upstream_translateOne] contentOf_def trim_examples
      handleTranslation_examples)
     (simp add: translateOne_def threeAds_def)

section \<open>Too few items, and upstream text that does not parse\<close>

lemma respond_too_few:
  assumes "normalize parsed = Inr its" and "length its < 3"
  shows "respond W b sc parsed =
           Response 502 (ErrorBody (js ''Prejetih je premalo oglasov.'') None (Some its))"
  using assms by (simp add: respond_def)

lemma normalize_twoOfThreeAds:
  "normalize twoOfThreeAds =
     Inr [\<lparr> title = js ''A'', description = js ''B'', cta = js ''C'' \<rparr>,
          \<lparr> title = js ''D'', description = js ''E'', cta = js ''F'' \<rparr>]"
proof -
  have third: "normalizeItem (JObj [(js ''title'', JStr (js ''G'')), (js ''description'', JStr (js ''H''))]) =
      Inr \<lparr> title = js ''G'', description = js ''H'', cta = [] \<rparr>"
    by (simp add: normalizeItem_def readField_def normalizeField_def trim_letters)
       (simp add: js_def trim_def)
  show ?thesis
    by (simp add: normalize_def twoOfThreeAds_def normalizeItem_adObject third trim_letters valid_def)
       (simp add: js_def)
qed

lemma parseContent_examples:
  "parseContent (exampleWorld c) threeAdsText = Some threeAds"
  "parseContent (exampleWorld c) bareThreeAdsText = Some threeAds"
  "parseContent (exampleWorld c) twoOfThreeAdsText = Some twoOfThreeAds"
  "parseContent (exampleWorld c) emptyArrayText = Some []"
  by (simp_all add: parseContent_def strictParse_def exampleWorld_simps parse_examples)

lemma parseContent_truncated:
  "parseContent (exampleWorld c) truncatedText = None"
proof -
  have "lastIndexOf truncatedText 0x5D = -1"
    by (simp add: lastIndexOf_def truncatedText_def js_def)
  then show ?thesis
    by (simp add: parseContent_def strictParse_def fallbackParse_def exampleWorld_simps
        parse_examples)
qed

text \<open>
  C4. When the Normalizer of the generation route recovers exactly two valid items
  from the upstream response, the route answers with status 502 and \<open>items\<close> holding
  those two items. When the upstream response of a translation request holds two items
  under \<open>ads\<close>, the translation route answers with status 200 and these items.
\<close>

theorem two_valid_items_fail_generation_pass_translation:
  "(generateUpstream W b sc c \<and> parseContent W (contentOf c) = Some parsed \<and>
    normalize parsed = Inr its \<and> length its = 2 \<longrightarrow>
      fst (POST_generate W (Inr b)) =
        Response 502 (ErrorBody (js ''Prejetih je premalo oglasov.'') None (Some its)) \<and>
      (\<forall>a \<in> set its. valid a)) \<and>
   (translateUpstream W tb tc \<and> JSON_parse W (contentOf tc) = Some (JObj kvs) \<and>
    map_of kvs (js ''ads'') = Some (JArr xs) \<and> length xs = 2 \<longrightarrow>
      fst (POST_translate W (Inr tb)) = Response 200 (TrAdsBody xs))"
proof (intro conjI impI)
  assume h: "generateUpstream W b sc c \<and> parseContent W (contentOf c) = Some parsed \<and>
    normalize parsed = Inr its \<and> length its = 2"
  then have "respond W b sc parsed =
      Response 502 (ErrorBody (js ''Prejetih je premalo oglasov.'') None (Some its))"
    by (simp add: respond_too_few)
  with h POST_generate_upstream [of W b sc c]
  show "fst (POST_generate W (Inr b)) =
      Response 502 (ErrorBody (js ''Prejetih je premalo oglasov.'') None (Some its))"
    by (simp add: handleContent_def)
  from h normalize_Inr(2) [of parsed its] show "\<forall>a \<in> set its. valid a"
    by simp
next
  assume h: "translateUpstream W tb tc \<and> JSON_parse W (contentOf tc) = Some (JObj kvs) \<and>
    map_of kvs (js ''ads'') = Some (JArr xs) \<and> length xs = 2"
  then have "xs \<noteq> []"
    by auto
  with h POST_translate_upstream [of W tb tc]
  show "fst (POST_translate W (Inr tb)) = Response 200 (TrAdsBody xs)"
    by (simp add: handleTranslation_ads)
qed

theorem two_valid_items_fail_generation_pass_translation_witness:
  "fst (POST_generate (exampleWorld (Some twoOfThreeAdsText)) (Inr urlRequest)) =
     Response 502
       (ErrorBody (js ''Prejetih je premalo oglasov.'') None
          (Some [\<lparr> title = js ''A'', description = js ''B'', cta = js ''C'' \<rparr>,
                 \<lparr> title = js ''D'', description = js ''E'', cta = js ''F'' \<rparr>])) \<and>
   fst (POST_translate (exampleWorld (Some twoAdsText)) (Inr translateOne)) =
     Response 200 (TrAdsBody twoAds)"
proof -
  let ?W = "exampleWorld (Some twoOfThreeAdsText)"
  let ?V = "exampleWorld (Some twoAdsText)"
  let ?its = "[\<lparr> title = js ''A'', description = js ''B'', cta = js ''C'' \<rparr>,
               \<lparr> title = js ''D'', description = js ''E'', cta = js ''F'' \<rparr>]"
  have g: "generateUpstream ?W urlRequest \<lparr> h1 = Some (js ''Shop''), meta = None \<rparr>
             (Some twoOfThreeAdsText) \<and>
           parseContent ?W (contentOf (Some twoOfThreeAdsText)) = Some twoOfThreeAds \<and>
           normalize twoOfThreeAds = Inr ?its \<and> length ?its = 2"
    by (simp add: upstream_urlRequest contentOf_def trim_examples parseContent_examples
        normalize_twoOfThreeAds)
  have t: "translateUpstream ?V translateOne (Some twoAdsText) \<and>
           JSON_parse ?V (contentOf (Some twoAdsText)) = Some (JObj [(js ''ads'', JArr twoAds)]) \<and>
           map_of [(js ''ads'', JArr twoAds)] (js ''ads'') = Some (JArr twoAds) \<and>
           length twoAds = 2"
    by (simp add: upstream_translateOne contentOf_def trim_examples exampleWorld_simps
        parse_examples twoAds_def)
  from two_valid_items_fail_generation_pass_translation
    [where W = ?W and b = urlRequest and c = "Some twoOfThreeAdsText" and parsed = twoOfThreeAds
       and its = ?its and sc = "\<lparr> h1 = Some (js ''Shop''), meta = None \<rparr>"]
    g
  have a: "fst (POST_generate ?W (Inr urlRequest)) =
     Response 502 (ErrorBody (js ''Prejetih je premalo oglasov.'') None (Some ?its))"
    by blast
  from two_valid_items_fail_generation_pass_translation
    [where W = ?V and tb = translateOne and tc = "Some twoAdsText" and xs = twoAds
       and kvs = "[(js ''ads'', JArr twoAds)]"]
    t
  have b: "fst (POST_translate ?V (Inr translateOne)) = Response 200 (TrAdsBody twoAds)"
    by blast
  from a b show ?thesis
    by (rule conjI)
qed

text \<open>
  C6, as the code has it. When every parsing attempt on the upstream text fails, the
  route (generation and translation alike) answers with status 502 and a \<open>raw\<close>
  field that is the upstream text with the white space at both ends trimmed off; it
  is the upstream text itself exactly when that text has no such white space.
\<close>

theorem unparsable_upstream_502_raw_trimmed:
  "(generateUpstream W b sc (Some reply) \<and> parseContent W (trim reply) = None \<longrightarrow>
      fst (POST_generate W (Inr b)) =
        Response 502 (ErrorBody (js ''Neveljaven JSON iz OpenAI.'') (Some (trim reply)) None)) \<and>
   (translateUpstream W tb (Some reply') \<and> translateResult W (trim reply') = [] \<longrightarrow>
      fst (POST_translate W (Inr tb)) =
        Response 502 (TrErrorBody (js ''Neveljaven JSON iz OpenAI.'') (Some (trim reply'))))"
  using POST_generate_upstream [of W b sc "Some reply"]
    POST_translate_upstream [of W tb "Some reply'"]
  by (simp add: handleContent_def handleTranslation_def contentOf_def)

theorem unparsable_upstream_502_raw_trimmed_witness:
  "fst (POST_generate (exampleWorld (Some truncatedText)) (Inr urlRequest)) =
     Response 502 (ErrorBody (js ''Neveljaven JSON iz OpenAI.'') (Some truncatedText) None) \<and>
   fst (POST_translate (exampleWorld (Some truncatedText)) (Inr translateOne)) =
     Response 502 (TrErrorBody (js ''Neveljaven JSON iz OpenAI.'') (Some truncatedText))"
proof -
  let ?W = "exampleWorld (Some truncatedText)"
  have g: "generateUpstream ?W urlRequest \<lparr> h1 = Some (js ''Shop''), meta = None \<rparr>
             (Some truncatedText) \<and> parseContent ?W (trim truncatedText) = None"
    by (simp add: upstream_urlRequest trim_examples parseContent_truncated)
  have t: "translateUpstream ?W translateOne (Some truncatedText) \<and>
           translateResult ?W (trim truncatedText) = []"
    by (simp add: upstream_translateOne trim_examples translateResult_def exampleWorld_simps
        parse_examples)
  from unparsable_upstream_502_raw_trimmed
    [where W = ?W and b = urlRequest and reply = truncatedText and tb = translateOne
       and reply' = truncatedText and sc = "\<lparr> h1 = Some (js ''Shop''), meta = None \<rparr>"]
    g t
  show ?thesis
    by (simp add: trim_examples)
qed

text \<open>
  C6 as stated fails: for the truncated text followed by a line feed, which fails every
  parsing attempt, both routes answer 502 with a \<open>raw\<close> that lacks the line feed.
\<close>

theorem raw_is_not_original_text_counterexample:
  "parseContent (exampleWorld (Some (truncatedText @ [0x0A]))) (truncatedText @ [0x0A]) = None \<and>
   fst (POST_generate (exampleWorld (Some (truncatedText @ [0x0A]))) (Inr urlRequest)) =
     Response 502 (ErrorBody (js ''Neveljaven JSON iz OpenAI.'') (Some truncatedText) None) \<and>
   fst (POST_translate (exampleWorld (Some (truncatedText @ [0x0A]))) (Inr translateOne)) =
     Response 502 (TrErrorBody (js ''Neveljaven JSON iz OpenAI.'') (Some truncatedText)) \<and>
   truncatedText \<noteq> truncatedText @ [0x0A]"
proof -
  have tr: "trim (truncatedText @ [0x0A]) = truncatedText"
    by (simp add: trim_def truncatedText_def js_def isWhiteSpace_def)
  have p: "exampleParse (truncatedText @ [0x0A]) = None"
    by (simp add: exampleParse_def threeAdsText_def bareThreeAdsText_def twoOfThreeAdsText_def
        twoAdsText_def paddedAdText_def truncatedText_def emptyArrayText_def js_def)
  have "lastIndexOf (truncatedText @ [0x0A]) 0x5D = -1"
    by (simp add: lastIndexOf_def truncatedText_def js_def)
  then have a: "parseContent (exampleWorld (Some (truncatedText @ [0x0A]))) (truncatedText @ [0x0A]) = None"
    by (simp add: parseContent_def strictParse_def fallbackParse_def exampleWorld_simps p)
  have b: "fst (POST_generate (exampleWorld (Some (truncatedText @ [0x0A]))) (Inr urlRequest)) =
     Response 502 (ErrorBody (js ''Neveljaven JSON iz OpenAI.'') (Some truncatedText) None)"
    by (simp add: POST_generate_upstream [OF upstream_urlRequest] contentOf_def tr
        handleContent_def parseContent_truncated)
  have c: "fst (POST_translate (exampleWorld (Some (truncatedText @ [0x0A]))) (Inr translateOne)) =
     Response 502 (TrErrorBody (js ''Neveljaven JSON iz OpenAI.'') (Some truncatedText))"
    by (simp add: POST_translate_upstream [OF upstream_translateOne] contentOf_def tr
        handleTranslation_examples)
  from a b c show ?thesis
    by simp
qed

section \<open>A bare array from upstream\<close>

lemma chat_create_update_simps:
  "JSON_parse (W\<lparr>chat_create := f\<rparr>) = JSON_parse W"
  "engine_message (W\<lparr>chat_create := f\<rparr>) = engine_message W"
  "OPENAI_API_KEY (W\<lparr>chat_create := f\<rparr>) = OPENAI_API_KEY W"
  "axios_get (W\<lparr>chat_create := f\<rparr>) = axios_get W"
  "h1_first_text (W\<lparr>chat_create := f\<rparr>) = h1_first_text W"
  "attr_content (W\<lparr>chat_create := f\<rparr>) = attr_content W"
  by simp_all

lemma catchGenerate_chat_create:
  "catchGenerate (W\<lparr>chat_create := f\<rparr>) e = catchGenerate W e"
  unfolding catchGenerate_def thrownMessage_def chat_create_update_simps by (rule refl)

lemma handleContent_chat_create:
  "handleContent (W\<lparr>chat_create := f\<rparr>) b sc content = handleContent W b sc content"
  unfolding handleContent_def parseContent_def strictParse_def fallbackParse_def respond_def
    catchGenerate_chat_create chat_create_update_simps
  by (rule refl)

lemma scrapeStep_chat_create:
  "scrapeStep (W\<lparr>chat_create := f\<rparr>) b = scrapeStep W b"
  unfolding scrapeStep_def scrapePage_def chat_create_update_simps by (rule refl)

lemma handleContent_bare_or_wrapped:
  assumes "JSON_parse W bare = Some (JArr xs)"
    and "JSON_parse W wrapped = Some (JObj kvs)" and "map_of kvs (js ''ads'') = Some (JArr xs)"
  shows "handleContent W b sc bare = respond W b sc xs"
    and "handleContent W b sc wrapped = respond W b sc xs"
  using assms by (simp_all add: handleContent_def parseContent_def strictParse_def)

lemma POST_generate_answer:
  "POST_generate (W\<lparr>chat_create := \<lambda>r. Inr c\<rparr>) (Inr b) =
     (if \<not> truthyStr (url b) \<and> variantOf b = None then POST_generate W (Inr b)
      else case scrapeStep W b of
          Inl e \<Rightarrow> POST_generate W (Inr b)
        | Inr sc \<Rightarrow>
            if \<not> truthyStr (OPENAI_API_KEY W) then POST_generate W (Inr b)
            else (handleContent W b sc (contentOf c),
                  (if truthyStr (url b) then [ScrapeFetch (the (url b))] else []) @
                  [CompletionCall (generateRequest b sc)]))"
  by (simp add: POST_generate_def scrapeStep_chat_create handleContent_chat_create
      catchGenerate_chat_create Let_def split: sum.splits)

text \<open>
  C3, as the code has it. The tolerance for a bare array lies in the generation route:
  when the upstream text parses to a bare array, that route answers exactly as it
  does for the same items wrapped as \<open>{ads: [...]}\<close> (same response, same calls).
  The translation route reads only the \<open>ads\<close> property of the parsed value, so a
  bare array leaves its result empty and it answers 502 with \<open>raw\<close>.
\<close>

theorem bare_array_accepted_by_generation_only:
  "(JSON_parse W (contentOf c1) = Some (JArr xs) \<and>
    JSON_parse W (contentOf c2) = Some (JObj kvs) \<and> map_of kvs (js ''ads'') = Some (JArr xs) \<longrightarrow>
      POST_generate (W\<lparr>chat_create := \<lambda>r. Inr c1\<rparr>) req =
      POST_generate (W\<lparr>chat_create := \<lambda>r. Inr c2\<rparr>) req) \<and>
   (translateUpstream W tb c1 \<and> JSON_parse W (contentOf c1) = Some (JArr xs) \<longrightarrow>
      fst (POST_translate W (Inr tb)) =
        Response 502 (TrErrorBody (js ''Neveljaven JSON iz OpenAI.'') (Some (contentOf c1))))"
proof (intro conjI impI)
  assume h: "JSON_parse W (contentOf c1) = Some (JArr xs) \<and>
    JSON_parse W (contentOf c2) = Some (JObj kvs) \<and> map_of kvs (js ''ads'') = Some (JArr xs)"
  show "POST_generate (W\<lparr>chat_create := \<lambda>r. Inr c1\<rparr>) req =
      POST_generate (W\<lparr>chat_create := \<lambda>r. Inr c2\<rparr>) req"
  proof (cases req)
    case (Inl e)
    then show ?thesis
      by (simp add: POST_generate_def catchGenerate_chat_create)
  next
    case (Inr b)
    from h have "handleContent W b sc (contentOf c1) = handleContent W b sc (contentOf c2)" for sc
      using handleContent_bare_or_wrapped [of W "contentOf c1" xs "contentOf c2" kvs b sc]
      by simp
    with Inr show ?thesis
      by (simp add: POST_generate_answer split: sum.splits)
  qed
next
  assume h: "translateUpstream W tb c1 \<and> JSON_parse W (contentOf c1) = Some (JArr xs)"
  with POST_translate_upstream [of W tb c1]
  show "fst (POST_translate W (Inr tb)) =
        Response 502 (TrErrorBody (js ''Neveljaven JSON iz OpenAI.'') (Some (contentOf c1)))"
    by (simp add: handleTranslation_def translateResult_def)
qed

theorem bare_array_accepted_by_generation_only_witness:
  "POST_generate (exampleWorld (Some bareThreeAdsText)) (Inr urlRequest) =
   POST_generate (exampleWorld (Some threeAdsText)) (Inr urlRequest) \<and>
   status (fst (POST_generate (exampleWorld (Some bareThreeAdsText)) (Inr urlRequest))) = 200 \<and>
   fst (POST_translate (exampleWorld (Some bareThreeAdsText)) (Inr translateOne)) =
     Response 502 (TrErrorBody (js ''Neveljaven JSON iz OpenAI.'') (Some bareThreeAdsText))"
proof -
  let ?W = "exampleWorld (Some bareThreeAdsText)"
  have w: "?W\<lparr>chat_create := \<lambda>r. Inr c\<rparr> = exampleWorld c" for c
    by (simp add: exampleWorld_def)
  have g: "JSON_parse ?W (contentOf (Some bareThreeAdsText)) = Some (JArr threeAds) \<and>
           JSON_parse ?W (contentOf (Some threeAdsText)) = Some (JObj [(js ''ads'', JArr threeAds)]) \<and>
           map_of [(js ''ads'', JArr threeAds)] (js ''ads'') = Some (JArr threeAds)"
    by (simp add: contentOf_def trim_examples exampleWorld_simps parse_examples)
  have t: "translateUpstream ?W translateOne (Some bareThreeAdsText)"
    by (rule upstream_translateOne)
  from bare_array_accepted_by_generation_only
    [where W = ?W and ?c1.0 = "Some bareThreeAdsText" and ?c2.0 = "Some threeAdsText"
       and xs = threeAds and kvs = "[(js ''ads'', JArr threeAds)]" and req = "Inr urlRequest"
       and tb = translateOne]
    g t
  have a: "POST_generate (exampleWorld (Some bareThreeAdsText)) (Inr urlRequest) =
           POST_generate (exampleWorld (Some threeAdsText)) (Inr urlRequest)"
    and b: "fst (POST_translate ?W (Inr translateOne)) =
     Response 502 (TrErrorBody (js ''Neveljaven JSON iz OpenAI.'') (Some bareThreeAdsText))"
    by (simp_all add: w contentOf_def trim_examples)
  have "status (fst (POST_generate (exampleWorld (Some threeAdsText)) (Inr urlRequest))) = 200"
    by (simp add: POST_generate_upstream [OF upstream_urlRequest] contentOf_def trim_examples
        handleContent_threeAds)
  with a b show ?thesis
    by simp
qed

text \<open>
  C3 as stated fails: the translation route answers 502 to three items sent as a bare
  array, and 200 to the same three items wrapped as \<open>{ads: [...]}\<close>.
\<close>

theorem translate_rejects_bare_array_counterexample:
  "JSON_parse (exampleWorld (Some bareThreeAdsText)) bareThreeAdsText = Some (JArr threeAds) \<and>
   JSON_parse (exampleWorld (Some threeAdsText)) threeAdsText =
     Some (JObj [(js ''ads'', JArr threeAds)]) \<and>
   fst (POST_translate (exampleWorld (Some bareThreeAdsText)) (Inr translateOne)) =
     Response 502 (TrErrorBody (js ''Neveljaven JSON iz OpenAI.'') (Some bareThreeAdsText)) \<and>
   fst (POST_translate (exampleWorld (Some threeAdsText)) (Inr translateOne)) =
     Response 200 (TrAdsBody threeAds)"
  by (simp add: POST_translate_upstream [OF upstream_translateOne] contentOf_def trim_examples
      handleTranslation_examples exampleWorld_simps parse_examples)

section \<open>The parse of the generation route against its description\<close>

lemma indexOf_takeWhile:
  "indexOf s x = (if x \<in> set s then int (length (takeWhile (\<lambda>c. c \<noteq> x) s)) else -1)"
  by (induction s) (auto simp: Let_def)

lemma length_takeWhile_take:
  "length (takeWhile Q (take m xs)) = min m (length (takeWhile Q xs))"
proof (induction xs arbitrary: m)
  case Nil
  then show ?case by simp
next
  case (Cons x xs)
  then show ?case by (cases m) simp_all
qed

lemma rev_dropWhile_rev:
  "rev (dropWhile Q (rev ys)) = take (length ys - length (takeWhile Q (rev ys))) ys"
proof -
  have "dropWhile Q (rev ys) = drop (length (takeWhile Q (rev ys))) (rev ys)"
    by (rule dropWhile_eq_drop)
  then show ?thesis
    by (simp add: rev_drop)
qed

lemma bracketed_take_drop:
  "bracketed s =
     take (length s - length (takeWhile (\<lambda>c. c \<noteq> 0x5B) s) -
           min (length s - length (takeWhile (\<lambda>c. c \<noteq> 0x5B) s))
               (length (takeWhile (\<lambda>c. c \<noteq> 0x5D) (rev s))))
       (drop (length (takeWhile (\<lambda>c. c \<noteq> 0x5B) s)) s)"
proof -
  let ?i = "length (takeWhile (\<lambda>c. c \<noteq> 0x5B) s)"
  have ys: "dropWhile (\<lambda>c. c \<noteq> 0x5B) s = drop ?i s"
    by (rule dropWhile_eq_drop)
  have "rev (drop ?i s) = take (length s - ?i) (rev s)"
    by (rule rev_drop)
  then have "length (takeWhile (\<lambda>c. c \<noteq> 0x5D) (rev (drop ?i s))) =
      min (length s - ?i) (length (takeWhile (\<lambda>c. c \<noteq> 0x5D) (rev s)))"
    by (simp add: length_takeWhile_take)
  then show ?thesis
    unfolding bracketed_def ys rev_dropWhile_rev by simp
qed

lemma length_takeWhile_less:
  "x \<in> set xs \<Longrightarrow> \<not> P x \<Longrightarrow> length (takeWhile P xs) < length xs"
  by (induction xs) auto

lemma bracket_positions_differ:
  assumes "(0x5B :: 16 word) \<in> set s" and "(0x5D :: 16 word) \<in> set s"
  shows "length (takeWhile (\<lambda>c. c \<noteq> 0x5D) (rev s)) + length (takeWhile (\<lambda>c. c \<noteq> 0x5B) s) + 1
           \<noteq> length s"
proof
  let ?i = "length (takeWhile (\<lambda>c. c \<noteq> 0x5B) s)"
  let ?k = "length (takeWhile (\<lambda>c. c \<noteq> 0x5D) (rev s))"
  assume eq: "?k + ?i + 1 = length s"
  from assms(1) have "?i < length s"
    by (rule length_takeWhile_less) simp
  then have lb: "s ! ?i = 0x5B"
    using nth_length_takeWhile [of "\<lambda>c. c \<noteq> 0x5B" s] by simp
  from assms(2) have k: "?k < length (rev s)"
    by (intro length_takeWhile_less [of "0x5D"]) simp_all
  then have "rev s ! ?k = 0x5D"
    using nth_length_takeWhile [of "\<lambda>c. c \<noteq> 0x5D" "rev s"] by simp
  moreover from k have "rev s ! ?k = s ! (length s - Suc ?k)"
    by (simp add: rev_nth)
  moreover from eq have "length s - Suc ?k = ?i"
    by simp
  ultimately have "s ! ?i = 0x5D"
    by simp
  with lb show False
    by simp
qed

lemma fallbackParse_bracketed:
  "fallbackParse W s = (case tierBracketed W s of None \<Rightarrow> [] | Some xs \<Rightarrow> xs)"
proof -
  let ?i = "length (takeWhile (\<lambda>c. c \<noteq> 0x5B) s)"
  let ?k = "length (takeWhile (\<lambda>c. c \<noteq> 0x5D) (rev s))"
  let ?n = "length s"
  have start: "indexOf s 0x5B = (if 0x5B \<in> set s then int ?i else -1)"
    by (rule indexOf_takeWhile)
  have last: "lastIndexOf s 0x5D = (if 0x5D \<in> set s then int ?n - 1 - int ?k else -1)"
    by (simp add: lastIndexOf_def indexOf_takeWhile)
  have i_le: "?i \<le> ?n"
    by (rule length_takeWhile_le)
  show ?thesis
  proof (cases "0x5B \<in> set s \<and> 0x5D \<in> set s \<and> ?i + ?k + 1 < ?n")
    case True
    then have cond: "indexOf s 0x5B \<noteq> -1 \<and> lastIndexOf s 0x5D \<noteq> -1 \<and>
        lastIndexOf s 0x5D > indexOf s 0x5B"
      unfolding start last by auto
    from True have sl: "slice s (indexOf s 0x5B) (lastIndexOf s 0x5D + 1) =
        take (?n - ?i - ?k) (drop ?i s)"
      unfolding start last by (simp add: slice_def Let_def nat_diff_distrib' nat_add_distrib add.commute)
    from True have "?k < ?n - ?i"
      by linarith
    then have "min (?n - ?i) ?k = ?k"
      by simp
    then have br: "bracketed s = take (?n - ?i - ?k) (drop ?i s)"
      unfolding bracketed_take_drop by simp
    from True have ne: "take (?n - ?i - ?k) (drop ?i s) \<noteq> []"
      by simp
    show ?thesis
      using cond ne unfolding fallbackParse_def tierBracketed_def Let_def sl br
      by (auto split: option.splits json.splits)
  next
    case False
    have cond: "\<not> (indexOf s 0x5B \<noteq> -1 \<and> lastIndexOf s 0x5D \<noteq> -1 \<and>
        lastIndexOf s 0x5D > indexOf s 0x5B)"
    proof (cases "0x5B \<in> set s \<and> 0x5D \<in> set s")
      case True
      with False have "\<not> ?i + ?k + 1 < ?n"
        by simp
      with True show ?thesis
        unfolding start last by auto
    next
      case False
      then show ?thesis
        unfolding start last by auto
    qed
    have "?n - ?i \<le> ?k"
    proof (cases "0x5B \<in> set s \<and> 0x5D \<in> set s")
      case True
      with False bracket_positions_differ [of s] show ?thesis
        by auto
    next
      case False
      show ?thesis
      proof (cases "0x5B \<in> set s")
        case True
        with False have "0x5D \<notin> set s" by simp
        then have "takeWhile (\<lambda>c. c \<noteq> 0x5D) (rev s) = rev s"
          by auto
        then have "?k = ?n"
          by (metis length_rev)
        then show ?thesis by linarith
      next
        case False
        then have "takeWhile (\<lambda>c. c \<noteq> 0x5B) s = s"
          by auto
        then have "?i = ?n"
          by metis
        then show ?thesis by linarith
      qed
    qed
    then have "min (?n - ?i) ?k = ?n - ?i"
      by simp
    then have br: "bracketed s = []"
      unfolding bracketed_take_drop by simp
    show ?thesis
      using cond unfolding fallbackParse_def tierBracketed_def Let_def br
      by auto
  qed
qed

lemma tierBracketed_nonempty: "tierBracketed W s \<noteq> Some []"
  by (auto simp: tierBracketed_def split: option.splits json.splits)

lemma strictParse_tiers:
  "strictParse W s = (case tierArray W s of Some xs \<Rightarrow> Some xs | None \<Rightarrow> tierAdsProperty W s)"
proof (cases "JSON_parse W s")
  case None
  then show ?thesis
    by (simp add: strictParse_def tierArray_def tierAdsProperty_def)
next
  case (Some v)
  then show ?thesis
    by (cases v) (auto simp: strictParse_def tierArray_def tierAdsProperty_def
        split: option.splits json.splits)
qed

lemma parseContent_tieredParse: "parseContent W s = tieredParse W s"
proof -
  have "(let parsed = fallbackParse W s in if parsed = [] then None else Some parsed) =
      tierBracketed W s"
    using tierBracketed_nonempty [of W s]
    by (cases "tierBracketed W s") (simp_all add: fallbackParse_bracketed)
  then show ?thesis
    by (simp add: parseContent_def tieredParse_def strictParse_tiers split: option.splits)
qed


lemma trim_proseText: "trim proseText = proseText"
  by (rule trim_self; simp add: proseText_def bareThreeAdsText_def js_def isWhiteSpace_def)

lemma parse_proseText: "exampleParse proseText = None"
  by (simp add: exampleParse_def proseText_def threeAdsText_def bareThreeAdsText_def
      twoOfThreeAdsText_def twoAdsText_def paddedAdText_def emptyArrayText_def js_def)

lemma bracketed_proseText: "bracketed proseText = bareThreeAdsText"
  by (simp add: bracketed_def proseText_def bareThreeAdsText_def js_def)

lemma tieredParse_examples:
  "tieredParse (exampleWorld c) proseText = Some threeAds"
  "tieredParse (exampleWorld c) truncatedText = None"
  "tieredParse (exampleWorld c) emptyArrayText = Some []"
proof -
  have "bareThreeAdsText \<noteq> []"
    by (simp add: bareThreeAdsText_def js_def)
  moreover have "threeAds \<noteq> []"
    by (simp add: threeAds_def)
  ultimately show "tieredParse (exampleWorld c) proseText = Some threeAds"
    by (simp add: tieredParse_def tierArray_def tierAdsProperty_def tierBracketed_def
        exampleWorld_simps parse_proseText bracketed_proseText parse_examples)
  have "bracketed truncatedText = []"
    by (simp add: bracketed_def truncatedText_def js_def)
  then show "tieredParse (exampleWorld c) truncatedText = None"
    by (simp add: tieredParse_def tierArray_def tierAdsProperty_def tierBracketed_def
        exampleWorld_simps parse_examples)
  show "tieredParse (exampleWorld c) emptyArrayText = Some []"
    by (simp add: tieredParse_def tierArray_def exampleWorld_simps parse_examples)
qed

text \<open>
  C5, as the code has it. The parse of the generation route is the three tiers tried
  in order: the text parsed strictly, an array taken as the ad list, else the \<open>ads\<close>
  array of a parsed object; on failure of that, the text from the first \<open>[\<close> to the
  last \<open>]\<close> parsed as an array with at least one item. When every tier fails the
  route signals the parse failure, 502 with \<open>raw\<close>. When the strict tier itself yields
  zero items there is no fallback and no parse failure: the empty list goes on to the
  normalisation, and the route answers 502 with \<open>items\<close> empty.
\<close>

theorem generation_parse_tiers:
  "parseContent W content = tieredParse W content \<and>
   (generateUpstream W b sc c \<and> tieredParse W (contentOf c) = None \<longrightarrow>
      fst (POST_generate W (Inr b)) =
        Response 502 (ErrorBody (js ''Neveljaven JSON iz OpenAI.'') (Some (contentOf c)) None)) \<and>
   (generateUpstream W b sc c \<and> tieredParse W (contentOf c) = Some [] \<longrightarrow>
      fst (POST_generate W (Inr b)) =
        Response 502 (ErrorBody (js ''Prejetih je premalo oglasov.'') None (Some [])))"
proof (intro conjI impI)
  show "parseContent W content = tieredParse W content"
    by (rule parseContent_tieredParse)
next
  assume "generateUpstream W b sc c \<and> tieredParse W (contentOf c) = None"
  with POST_generate_upstream [of W b sc c]
  show "fst (POST_generate W (Inr b)) =
        Response 502 (ErrorBody (js ''Neveljaven JSON iz OpenAI.'') (Some (contentOf c)) None)"
    by (simp add: handleContent_def parseContent_tieredParse)
next
  assume "generateUpstream W b sc c \<and> tieredParse W (contentOf c) = Some []"
  with POST_generate_upstream [of W b sc c]
  show "fst (POST_generate W (Inr b)) =
        Response 502 (ErrorBody (js ''Prejetih je premalo oglasov.'') None (Some []))"
    by (simp add: handleContent_def parseContent_tieredParse respond_def normalize_def)
qed

theorem generation_parse_tiers_witness:
  "parseContent (exampleWorld (Some proseText)) proseText = Some threeAds \<and>
   status (fst (POST_generate (exampleWorld (Some proseText)) (Inr urlRequest))) = 200 \<and>
   fst (POST_generate (exampleWorld (Some truncatedText)) (Inr urlRequest)) =
     Response 502 (ErrorBody (js ''Neveljaven JSON iz OpenAI.'') (Some truncatedText) None) \<and>
   fst (POST_generate (exampleWorld (Some emptyArrayText)) (Inr urlRequest)) =
     Response 502 (ErrorBody (js ''Prejetih je premalo oglasov.'') None (Some []))"
proof -
  let ?sc = "\<lparr> h1 = Some (js ''Shop''), meta = None \<rparr>"
  from generation_parse_tiers [where W = "exampleWorld (Some proseText)" and content = proseText]
  have p: "parseContent (exampleWorld (Some proseText)) proseText = Some threeAds"
    by (simp add: tieredParse_examples)
  then have s: "status (fst (POST_generate (exampleWorld (Some proseText)) (Inr urlRequest))) = 200"
    by (simp add: POST_generate_upstream [OF upstream_urlRequest] contentOf_def trim_proseText
        handleContent_def respond_def normalize_threeAds)
  have g: "generateUpstream (exampleWorld (Some truncatedText)) urlRequest ?sc (Some truncatedText) \<and>
      tieredParse (exampleWorld (Some truncatedText)) (contentOf (Some truncatedText)) = None"
    by (simp add: upstream_urlRequest contentOf_def trim_examples tieredParse_examples)
  have e: "generateUpstream (exampleWorld (Some emptyArrayText)) urlRequest ?sc (Some emptyArrayText) \<and>
      tieredParse (exampleWorld (Some emptyArrayText)) (contentOf (Some emptyArrayText)) = Some []"
    by (simp add: upstream_urlRequest contentOf_def trim_examples tieredParse_examples)
  from generation_parse_tiers
    [where W = "exampleWorld (Some truncatedText)" and b = urlRequest and sc = ?sc
       and c = "Some truncatedText"] g
  have a: "fst (POST_generate (exampleWorld (Some truncatedText)) (Inr urlRequest)) =
     Response 502 (ErrorBody (js ''Neveljaven JSON iz OpenAI.'') (Some truncatedText) None)"
    by (simp add: contentOf_def trim_examples)
  from generation_parse_tiers
    [where W = "exampleWorld (Some emptyArrayText)" and b = urlRequest and sc = ?sc
       and c = "Some emptyArrayText"] e
  have b: "fst (POST_generate (exampleWorld (Some emptyArrayText)) (Inr urlRequest)) =
     Response 502 (ErrorBody (js ''Prejetih je premalo oglasov.'') None (Some []))"
    by simp
  from p s a b show ?thesis
    by (intro conjI)
qed

text \<open>
  C5 as stated fails: on the text \<open>[]\<close> the tiers with the rule ``zero items is a
  failure'' give a parse failure, but the code goes on with the empty list and answers
  with the too-few-items error, which has no \<open>raw\<close>.
\<close>

theorem empty_array_is_not_parse_failure_counterexample:
  "JSON_parse (exampleWorld (Some emptyArrayText)) emptyArrayText = Some (JArr []) \<and>
   tieredParseNonEmpty (exampleWorld (Some emptyArrayText)) emptyArrayText = None \<and>
   parseContent (exampleWorld (Some emptyArrayText)) emptyArrayText = Some [] \<and>
   fst (POST_generate (exampleWorld (Some emptyArrayText)) (Inr urlRequest)) =
     Response 502 (ErrorBody (js ''Prejetih je premalo oglasov.'') None (Some [])) \<and>
   raw (body (fst (POST_generate (exampleWorld (Some emptyArrayText)) (Inr urlRequest)))) = None"
proof -
  have a: "fst (POST_generate (exampleWorld (Some emptyArrayText)) (Inr urlRequest)) =
     Response 502 (ErrorBody (js ''Prejetih je premalo oglasov.'') None (Some []))"
    by (simp add: POST_generate_upstream [OF upstream_urlRequest] contentOf_def trim_examples
        handleContent_def parseContent_examples respond_def normalize_def)
  show ?thesis
    by (simp add: a tieredParseNonEmpty_def tieredParse_examples parseContent_examples
        exampleWorld_simps parse_examples)
qed

end
